theory Spec2Isabelle
  imports Main "HOL-Library.Char_ord" "HOL-Library.List_Lexorder" "HOL-Library.Multiset"
    "HOL-Library.AList"
begin

section \<open>Strings\<close>

text \<open>
  A Go string is a sequence of bytes, here a \<^typ>\<open>string\<close>; \<open><\<close> on Go strings is the
  byte-wise lexicographic order, which is the order of \<^typ>\<open>char list\<close> with the
  byte order on \<^typ>\<open>char\<close>.

  \<open>strings.TrimSpace\<close> removes the leading and the trailing white space of Unicode. On the
  bytes of the string this is: as long as the string starts (ends) with the UTF-8 encoding of
  a white-space code point, remove that encoding. The code points are U+0009 to U+000D,
  U+0020, U+0085, U+00A0, U+1680, U+2000 to U+200A, U+2028, U+2029, U+202F, U+205F and
  U+3000.
\<close>

definition spaceEncodings :: "string list" where
  "spaceEncodings =
    [[CHR 0x09], [CHR 0x0A], [CHR 0x0B], [CHR 0x0C], [CHR 0x0D], [CHR 0x20],
     [CHR 0xC2, CHR 0x85], [CHR 0xC2, CHR 0xA0],
     [CHR 0xE1, CHR 0x9A, CHR 0x80],
     [CHR 0xE2, CHR 0x80, CHR 0x80], [CHR 0xE2, CHR 0x80, CHR 0x81],
     [CHR 0xE2, CHR 0x80, CHR 0x82], [CHR 0xE2, CHR 0x80, CHR 0x83],
     [CHR 0xE2, CHR 0x80, CHR 0x84], [CHR 0xE2, CHR 0x80, CHR 0x85],
     [CHR 0xE2, CHR 0x80, CHR 0x86], [CHR 0xE2, CHR 0x80, CHR 0x87],
     [CHR 0xE2, CHR 0x80, CHR 0x88], [CHR 0xE2, CHR 0x80, CHR 0x89],
     [CHR 0xE2, CHR 0x80, CHR 0x8A],
     [CHR 0xE2, CHR 0x80, CHR 0xA8], [CHR 0xE2, CHR 0x80, CHR 0xA9],
     [CHR 0xE2, CHR 0x80, CHR 0xAF], [CHR 0xE2, CHR 0x81, CHR 0x9F],
     [CHR 0xE3, CHR 0x80, CHR 0x80]]"

definition leadingSpace :: "string \<Rightarrow> string option" where
  "leadingSpace s = find (\<lambda>p. take (length p) s = p) spaceEncodings"

definition trailingSpace :: "string \<Rightarrow> string option" where
  "trailingSpace s =
     find (\<lambda>p. length p \<le> length s \<and> drop (length s - length p) s = p) spaceEncodings"

function TrimLeft :: "string \<Rightarrow> string" where
  "TrimLeft s = (case leadingSpace s of None \<Rightarrow> s | Some p \<Rightarrow> TrimLeft (drop (length p) s))"
  by pat_completeness auto
termination
proof (relation "measure length")
  fix s p
  assume "leadingSpace s = Some p"
  then have mem: "p \<in> set spaceEncodings" and pre: "take (length p) s = p"
    by (auto simp: leadingSpace_def find_Some_iff)
  from mem have "p \<noteq> []" by (auto simp: spaceEncodings_def)
  moreover from pre this have "s \<noteq> []" by auto
  ultimately show "(drop (length p) s, s) \<in> measure length" by simp
qed simp

function TrimRight :: "string \<Rightarrow> string" where
  "TrimRight s =
     (case trailingSpace s of None \<Rightarrow> s | Some p \<Rightarrow> TrimRight (take (length s - length p) s))"
  by pat_completeness auto
termination
proof (relation "measure length")
  fix s p
  assume "trailingSpace s = Some p"
  then have mem: "p \<in> set spaceEncodings" and le: "length p \<le> length s"
    by (auto simp: trailingSpace_def find_Some_iff)
  from mem have "p \<noteq> []" by (auto simp: spaceEncodings_def)
  with le show "(take (length s - length p) s, s) \<in> measure length" by (cases s) auto
qed simp

definition TrimSpace :: "string \<Rightarrow> string" where
  "TrimSpace s = TrimRight (TrimLeft s)"

section \<open>Record model\<close>

text \<open>The fixed column positions of a grade row.\<close>

definition FieldSubjectCode :: nat where "FieldSubjectCode = 0"
definition FieldSubjectName :: nat where "FieldSubjectName = 1"
definition FieldStudentID :: nat where "FieldStudentID = 2"
definition FieldYear :: nat where "FieldYear = 3"
definition FieldClass :: nat where "FieldClass = 4"
definition FieldSeatNumber :: nat where "FieldSeatNumber = 5"
definition FieldStudentName :: nat where "FieldStudentName = 6"
definition FieldGroup :: nat where "FieldGroup = 7"
definition FieldScore :: nat where "FieldScore = 13"

record GradeRecord =
  Row :: "string list"

definition getField :: "GradeRecord \<Rightarrow> nat \<Rightarrow> string" where
  "getField g index = (if index < length (Row g) then TrimSpace (Row g ! index) else [])"

text \<open>
  The accessor methods of \<open>GradeRecord\<close>; the suffix keeps them apart from the fields of
  \<open>TeacherRecord\<close> of the same name.
\<close>

definition SubjectCode_g :: "GradeRecord \<Rightarrow> string" where
  "SubjectCode_g g = getField g FieldSubjectCode"
definition SubjectName_g :: "GradeRecord \<Rightarrow> string" where
  "SubjectName_g g = getField g FieldSubjectName"
definition StudentID_g :: "GradeRecord \<Rightarrow> string" where
  "StudentID_g g = getField g FieldStudentID"
definition Year_g :: "GradeRecord \<Rightarrow> string" where
  "Year_g g = getField g FieldYear"
definition Class_g :: "GradeRecord \<Rightarrow> string" where
  "Class_g g = getField g FieldClass"
definition SeatNumber_g :: "GradeRecord \<Rightarrow> string" where
  "SeatNumber_g g = getField g FieldSeatNumber"
definition StudentName_g :: "GradeRecord \<Rightarrow> string" where
  "StudentName_g g = getField g FieldStudentName"
definition Group_g :: "GradeRecord \<Rightarrow> string" where
  "Group_g g = getField g FieldGroup"
definition Score_g :: "GradeRecord \<Rightarrow> string" where
  "Score_g g = getField g FieldScore"

record TeacherRecord =
  SubjectCode :: string
  SubjectName :: string
  Year :: string
  Class :: string
  Group :: string
  TeacherName :: string
  Email :: string

text \<open>\<open>ReportKey\<close>; its fields carry the suffix \<open>_rk\<close>.\<close>

record ReportKey =
  TeacherName_rk :: string
  Year_rk :: string
  SubjectCode_rk :: string
  SubjectName_rk :: string

text \<open>
  A Go map is an association list with distinct keys, read with \<^const>\<open>map_of\<close> and
  written with \<^const>\<open>AList.update\<close>; its \<open>len\<close> is the length of the list. Reading a
  missing key of a map of slices gives the nil slice.
\<close>

type_synonym ('k, 'v) gomap = "('k \<times> 'v) list"

definition bucket :: "('k, 'v list) gomap \<Rightarrow> 'k \<Rightarrow> 'v list" where
  "bucket m k = (case map_of m k of None \<Rightarrow> [] | Some vs \<Rightarrow> vs)"

text \<open>\<open>fmt.Sprintf("%s_%s_%s", a, b, c)\<close>, the key of the teacher index.\<close>

definition indexKey :: "string \<Rightarrow> string \<Rightarrow> string \<Rightarrow> string" where
  "indexKey a b c = a @ ''_'' @ b @ ''_'' @ c"

definition teacherKey :: "TeacherRecord \<Rightarrow> string" where
  "teacherKey t = indexKey (SubjectCode t) (Year t) (Class t)"

definition gradeKey :: "GradeRecord \<Rightarrow> string" where
  "gradeKey g = indexKey (SubjectCode_g g) (Year_g g) (Class_g g)"

section \<open>Reading the teacher file and building the index\<close>

text \<open>
  \<open>readTeacherCSV\<close> on the records the CSV reader returned: the first record is the
  header, a record of fewer than 7 fields is skipped.
\<close>

definition teacherOfRecord :: "string list \<Rightarrow> TeacherRecord" where
  "teacherOfRecord r =
     \<lparr>SubjectCode = TrimSpace (r ! 0), SubjectName = TrimSpace (r ! 1),
      Year = TrimSpace (r ! 2), Class = TrimSpace (r ! 3), Group = TrimSpace (r ! 4),
      TeacherName = TrimSpace (r ! 5), Email = TrimSpace (r ! 6)\<rparr>"

fun teacherLoop :: "nat \<Rightarrow> string list list \<Rightarrow> TeacherRecord list \<Rightarrow> TeacherRecord list" where
  "teacherLoop i [] teachers = teachers"
| "teacherLoop i (r # records) teachers =
     (if i = 0 then teacherLoop (Suc i) records teachers
      else if length r < 7 then teacherLoop (Suc i) records teachers
      else teacherLoop (Suc i) records (teachers @ [teacherOfRecord r]))"

definition readTeacherCSV :: "string list list \<Rightarrow> TeacherRecord list" where
  "readTeacherCSV records = teacherLoop 0 records []"

text \<open>
  \<open>buildTeacherMap\<close>: the loop stores each teacher under its key, so a later teacher
  replaces an earlier one with the same key.
\<close>

fun buildLoop :: "TeacherRecord list \<Rightarrow> (string, TeacherRecord) gomap \<Rightarrow> (string, TeacherRecord) gomap"
  where
  "buildLoop [] teacherMap = teacherMap"
| "buildLoop (teacher # teachers) teacherMap =
     buildLoop teachers (AList.update (teacherKey teacher) teacher teacherMap)"

definition buildTeacherMap :: "TeacherRecord list \<Rightarrow> (string, TeacherRecord) gomap" where
  "buildTeacherMap teachers = buildLoop teachers []"

section \<open>Errors, log and environment\<close>

text \<open>
  The errors the program meets are values. \<open>log.Printf\<close> appends an entry to the log;
  \<open>log.Fatal\<close> ends the run. The progress lines printed with \<open>fmt.Printf\<close> are not
  modelled.
\<close>

datatype error = ReadError | MkdirError | CreateError string

datatype logEntry =
    ShortRowWarning nat nat nat
  | ErrorCSVFailed error
  | MkdirFailed error
  | ReportFailed string error
  | SettingsFailed error
  | MailFailed string string error

text \<open>
  The file system maps a path to the records of the CSV file stored there, header first.
  The environment says whether \<open>os.MkdirAll\<close> on the output directory fails and for
  which paths \<open>os.Create\<close> fails; a file that was created is written without error. It
  also fixes the order in which each \<open>range\<close> over a map visits the entries (see
  \<open>rangeOrder\<close>).
\<close>

type_synonym filesystem = "string \<Rightarrow> string list list option"

record Env =
  mkdirFails :: bool
  createFails :: "string \<Rightarrow> bool"
  seedReports :: "nat list"
  seedFiles :: "nat list"
  seedMail :: "nat list"

text \<open>
  Go visits the entries of a map in an order that changes from run to run. \<open>rangeOrder\<close>
  permutes the entries as a seed prescribes: each number of the seed selects the next
  entry to visit among those not yet visited.
\<close>

function rangeOrder :: "nat list \<Rightarrow> 'a list \<Rightarrow> 'a list" where
  "rangeOrder seed [] = []"
| "rangeOrder [] (x # xs) = x # xs"
| "rangeOrder (n # seed) (x # xs) =
     (let i = n mod length (x # xs)
      in (x # xs) ! i # rangeOrder seed (take i (x # xs) @ drop (Suc i) (x # xs)))"
  by pat_completeness auto
termination
  by (relation "measure (\<lambda>(seed, xs). length xs)") auto

section \<open>Reading the grade file\<close>

text \<open>
  \<open>readGradeCSV\<close> on the records the CSV reader returned (the reader accepts records of
  any width). The result is the admitted rows, the header now held by the global
  \<open>csvHeaders\<close>, and the warnings logged.
\<close>

fun gradeLoop ::
  "nat \<Rightarrow> string list list \<Rightarrow> string list \<Rightarrow> GradeRecord list \<Rightarrow> logEntry list
    \<Rightarrow> GradeRecord list \<times> logEntry list" where
  "gradeLoop i [] csvHeaders grades lg = (grades, lg)"
| "gradeLoop i (row # records) csvHeaders grades lg =
     (if length row = 0 then gradeLoop (Suc i) records csvHeaders grades lg
      else if length row < FieldStudentName + 1 then
        gradeLoop (Suc i) records csvHeaders grades
          (lg @ [ShortRowWarning (i + 1) (FieldStudentName + 1) (length row)])
      else
        let row' = (if length row < length csvHeaders
                    then row @ replicate (length csvHeaders - length row) []
                    else row)
        in gradeLoop (Suc i) records csvHeaders (grades @ [\<lparr>Row = row'\<rparr>]) lg)"

definition readGradeCSV ::
  "string list list \<Rightarrow> GradeRecord list \<times> string list \<times> logEntry list" where
  "readGradeCSV records =
     (let csvHeaders = (if length records > 0 then records ! 0 else []);
          (grades, lg) = gradeLoop 1 (drop 1 records) csvHeaders [] []
      in (grades, csvHeaders, lg))"

section \<open>Matching grade rows to teachers\<close>

text \<open>
  \<open>matchStudentsToTeachers\<close>: the report key of a matched row is made of the name of the
  teacher found and of three fields of the row; the loop appends the row to the bucket of
  that key, or to the unmatched rows when the index has no teacher for the key of the row.
\<close>

definition reportKeyOf :: "TeacherRecord \<Rightarrow> GradeRecord \<Rightarrow> ReportKey" where
  "reportKeyOf teacher grade =
     \<lparr>TeacherName_rk = TeacherName teacher, Year_rk = Year_g grade,
      SubjectCode_rk = SubjectCode_g grade, SubjectName_rk = SubjectName_g grade\<rparr>"

fun matchLoop ::
  "GradeRecord list \<Rightarrow> (string, TeacherRecord) gomap \<Rightarrow> (ReportKey, GradeRecord list) gomap
    \<Rightarrow> GradeRecord list \<Rightarrow> (ReportKey, GradeRecord list) gomap \<times> GradeRecord list" where
  "matchLoop [] teacherMap reportData errorRecords = (reportData, errorRecords)"
| "matchLoop (grade # grades) teacherMap reportData errorRecords =
     (case map_of teacherMap (gradeKey grade) of
        None \<Rightarrow> matchLoop grades teacherMap reportData (errorRecords @ [grade])
      | Some teacher \<Rightarrow>
          let reportKey = reportKeyOf teacher grade
          in matchLoop grades teacherMap
               (AList.update reportKey (bucket reportData reportKey @ [grade]) reportData)
               errorRecords)"

definition matchStudentsToTeachers ::
  "GradeRecord list \<Rightarrow> (string, TeacherRecord) gomap
    \<Rightarrow> (ReportKey, GradeRecord list) gomap \<times> GradeRecord list" where
  "matchStudentsToTeachers grades teacherMap = matchLoop grades teacherMap [] []"

section \<open>Ordering the rows of a report\<close>

text \<open>
  \<open>strconv.Atoi\<close> on a 64-bit platform: an optional sign, then one or more decimal
  digits and nothing else, and a value that fits into 64 bits; everything else is an error.
\<close>

definition isDigit :: "char \<Rightarrow> bool" where
  "isDigit c = (CHR ''0'' \<le> c \<and> c \<le> CHR ''9'')"

definition digitsValue :: "string \<Rightarrow> int" where
  "digitsValue ds = foldl (\<lambda>n c. n * 10 + (int (of_char c) - 48)) 0 ds"

definition Atoi :: "string \<Rightarrow> int option" where
  "Atoi s =
     (let neg = (s \<noteq> [] \<and> hd s = CHR ''-'');
          ds = (if s \<noteq> [] \<and> (hd s = CHR ''-'' \<or> hd s = CHR ''+'') then tl s else s)
      in if ds = [] \<or> \<not> list_all isDigit ds then None
         else let n = (if neg then - digitsValue ds else digitsValue ds)
              in if n < - (2 ^ 63) \<or> 2 ^ 63 - 1 < n then None else Some n)"

text \<open>The \<open>less\<close> function that \<open>createCSVReport\<close> hands to \<open>sort.Slice\<close>.\<close>

definition lessGrades :: "GradeRecord \<Rightarrow> GradeRecord \<Rightarrow> bool" where
  "lessGrades a b =
     (if Class_g a \<noteq> Class_g b then Class_g a < Class_g b
      else case (Atoi (SeatNumber_g a), Atoi (SeatNumber_g b)) of
             (Some seatI, Some seatJ) \<Rightarrow> seatI < seatJ
           | _ \<Rightarrow> SeatNumber_g a < SeatNumber_g b)"

text \<open>
  \<open>sort.Slice\<close> belongs to the Go library, not to this program, and is a parameter
  \<open>srt\<close> of everything that sorts. What the library promises is \<open>sortContract\<close>: the
  result is a rearrangement of the slice, and it is in order when \<open>less\<close> is a strict weak
  order on the elements of the slice (irreflexive, transitive, and with a transitive
  "not less"), which is what the library asks of \<open>less\<close>.

  The library's sort is deterministic (the same slice and the same \<open>less\<close> give the same
  result), so it is a function.

  \<open>insertionSort_func\<close> is the insertion sort the library runs on a slice of at most 12
  elements: each element in turn moves towards the front for as long as it is less than
  the element before it. It is the instance of \<open>srt\<close> used on concrete inputs.
\<close>

definition strictWeakOn :: "'a set \<Rightarrow> ('a \<Rightarrow> 'a \<Rightarrow> bool) \<Rightarrow> bool" where
  "strictWeakOn A lt \<longleftrightarrow>
     (\<forall>x\<in>A. \<not> lt x x) \<and>
     (\<forall>x\<in>A. \<forall>y\<in>A. \<forall>z\<in>A. lt x y \<longrightarrow> lt y z \<longrightarrow> lt x z) \<and>
     (\<forall>x\<in>A. \<forall>y\<in>A. \<forall>z\<in>A. \<not> lt x y \<longrightarrow> \<not> lt y z \<longrightarrow> \<not> lt x z)"

definition inOrder :: "('a \<Rightarrow> 'a \<Rightarrow> bool) \<Rightarrow> 'a list \<Rightarrow> bool" where
  "inOrder lt xs = sorted_wrt (\<lambda>a b. \<not> lt b a) xs"

definition sortContract :: "(('a \<Rightarrow> 'a \<Rightarrow> bool) \<Rightarrow> 'a list \<Rightarrow> 'a list) \<Rightarrow> bool" where
  "sortContract srt \<longleftrightarrow>
     (\<forall>lt xs. mset (srt lt xs) = mset xs) \<and>
     (\<forall>lt xs. strictWeakOn (set xs) lt \<longrightarrow> inOrder lt (srt lt xs))"

fun insertDown :: "('a \<Rightarrow> 'a \<Rightarrow> bool) \<Rightarrow> 'a \<Rightarrow> 'a list \<Rightarrow> 'a list" where
  "insertDown lt x [] = [x]"
| "insertDown lt x (p # ps) = (if lt x p then p # insertDown lt x ps else x # p # ps)"

definition insertionSort_func :: "('a \<Rightarrow> 'a \<Rightarrow> bool) \<Rightarrow> 'a list \<Rightarrow> 'a list" where
  "insertionSort_func lt xs = rev (foldl (\<lambda>acc x. insertDown lt x acc) [] xs)"

section \<open>File paths\<close>

text \<open>
  \<open>filepath.Join\<close> with the separator \<open>/\<close>: the elements from the first non-empty one
  on are joined with \<open>/\<close> and the result is cleaned. \<open>filepath.Clean\<close> drops empty
  elements and \<open>.\<close> elements, and lets a \<open>..\<close> element remove the element before it;
  a \<open>..\<close> with nothing before it stays in a relative path and is dropped in a rooted one.
\<close>

fun splitOn :: "char \<Rightarrow> string \<Rightarrow> string list" where
  "splitOn c [] = [[]]"
| "splitOn c (x # xs) =
     (if x = c then [] # splitOn c xs
      else case splitOn c xs of [] \<Rightarrow> [[x]] | e # es \<Rightarrow> (x # e) # es)"

fun joinWith :: "string \<Rightarrow> string list \<Rightarrow> string" where
  "joinWith sep [] = []"
| "joinWith sep [e] = e"
| "joinWith sep (e # es) = e @ sep @ joinWith sep es"

fun cleanElems :: "bool \<Rightarrow> string list \<Rightarrow> string list \<Rightarrow> string list" where
  "cleanElems rooted [] out = rev out"
| "cleanElems rooted (e # es) out =
     (if e = [] \<or> e = ''.'' then cleanElems rooted es out
      else if e = ''..'' then
        (case out of
           [] \<Rightarrow> if rooted then cleanElems rooted es [] else cleanElems rooted es [''..'']
         | p # ps \<Rightarrow> if p = ''..'' then cleanElems rooted es (''..'' # out)
                     else cleanElems rooted es ps)
      else cleanElems rooted es (e # out))"

definition Clean :: "string \<Rightarrow> string" where
  "Clean path =
     (if path = [] then ''.''
      else let rooted = (hd path = CHR ''/'');
               cleaned = (if rooted then ''/'' else [])
                         @ joinWith ''/'' (cleanElems rooted (splitOn (CHR ''/'') path) [])
           in if cleaned = [] then ''.'' else cleaned)"

definition filepath_Join :: "string list \<Rightarrow> string" where
  "filepath_Join elem =
     (case dropWhile (\<lambda>e. e = []) elem of [] \<Rightarrow> [] | es \<Rightarrow> Clean (joinWith ''/'' es))"

definition outputDir :: string where
  "outputDir = ''output''"

text \<open>
  The name of a report, \<open>fmt.Sprintf("%s_<nianji>%s_%s.csv", ...)\<close> below the output
  directory, where \<open>nianji\<close> stands for the two CJK characters of the format string
  (U+5E74 and U+7D1A), given here by their UTF-8 bytes.
\<close>

definition nianji :: string where
  "nianji = [CHR 0xE5, CHR 0xB9, CHR 0xB4, CHR 0xE7, CHR 0xB4, CHR 0x9A]"

definition reportName :: "ReportKey \<Rightarrow> string" where
  "reportName key =
     TeacherName_rk key @ ''_'' @ nianji @ Year_rk key @ ''_'' @ SubjectName_rk key @ ''.csv''"

definition reportPath :: "ReportKey \<Rightarrow> string" where
  "reportPath key = filepath_Join [outputDir, reportName key]"

section \<open>Writing the exports\<close>

definition generateErrorCSV ::
  "Env \<Rightarrow> string list \<Rightarrow> GradeRecord list \<Rightarrow> filesystem \<Rightarrow> error + filesystem" where
  "generateErrorCSV env csvHeaders errorRecords fs =
     (if mkdirFails env then Inl MkdirError
      else let filename = filepath_Join [outputDir, ''error.csv'']
           in if createFails env filename then Inl (CreateError filename)
              else Inr (fs(filename \<mapsto> csvHeaders # map Row errorRecords)))"

text \<open>
  \<open>createCSVReport\<close> sorts the slice it is given in place, so its caller sees the rows in
  the new order: the result is the error if any, the slice after the call, and the file
  system after the call.
\<close>

definition createCSVReport ::
  "((GradeRecord \<Rightarrow> GradeRecord \<Rightarrow> bool) \<Rightarrow> GradeRecord list \<Rightarrow> GradeRecord list) \<Rightarrow> Env
    \<Rightarrow> string list \<Rightarrow> string \<Rightarrow> ReportKey \<Rightarrow> GradeRecord list \<Rightarrow> filesystem
    \<Rightarrow> error option \<times> GradeRecord list \<times> filesystem" where
  "createCSVReport srt env csvHeaders filename key grades fs =
     (if createFails env filename then (Some (CreateError filename), grades, fs)
      else let sorted = srt lessGrades grades
           in (None, sorted, fs(filename \<mapsto> csvHeaders # map Row sorted)))"

text \<open>
  The state of the loop of \<open>generateCSVReports\<close>: the map \<open>reportFiles\<close> built so far,
  the map \<open>reportData\<close> (whose slices the loop sorts in place), the file system and the
  log.
\<close>

record ReportState =
  reportFiles :: "(ReportKey, string) gomap"
  reportData :: "(ReportKey, GradeRecord list) gomap"
  files :: filesystem
  logged :: "logEntry list"

fun reportsLoop ::
  "((GradeRecord \<Rightarrow> GradeRecord \<Rightarrow> bool) \<Rightarrow> GradeRecord list \<Rightarrow> GradeRecord list) \<Rightarrow> Env
    \<Rightarrow> string list \<Rightarrow> (ReportKey \<times> GradeRecord list) list \<Rightarrow> ReportState \<Rightarrow> ReportState" where
  "reportsLoop srt env csvHeaders [] st = st"
| "reportsLoop srt env csvHeaders ((key, grades) # entries) st =
     (let filename = reportPath key
      in case createCSVReport srt env csvHeaders filename key grades (files st) of
           (Some err, grades', fs') \<Rightarrow>
             reportsLoop srt env csvHeaders entries
               (st\<lparr>reportData := AList.update key grades' (reportData st), files := fs',
                   logged := logged st @ [ReportFailed filename err]\<rparr>)
         | (None, grades', fs') \<Rightarrow>
             reportsLoop srt env csvHeaders entries
               (st\<lparr>reportFiles := AList.update key filename (reportFiles st),
                   reportData := AList.update key grades' (reportData st), files := fs'\<rparr>))"

definition generateCSVReports ::
  "((GradeRecord \<Rightarrow> GradeRecord \<Rightarrow> bool) \<Rightarrow> GradeRecord list \<Rightarrow> GradeRecord list) \<Rightarrow> Env
    \<Rightarrow> string list \<Rightarrow> (ReportKey, GradeRecord list) gomap \<Rightarrow> filesystem \<Rightarrow> logEntry list
    \<Rightarrow> ReportState" where
  "generateCSVReports srt env csvHeaders rd fs lg =
     (if mkdirFails env then
        \<lparr>reportFiles = [], reportData = rd, files = fs, logged = lg @ [MkdirFailed MkdirError]\<rparr>
      else reportsLoop srt env csvHeaders (rangeOrder (seedReports env) rd)
             \<lparr>reportFiles = [], reportData = rd, files = fs, logged = lg\<rparr>)"

section \<open>The distribution plan\<close>

text \<open>
  \<open>groupReportsByTeacher\<close>: the outer loop visits the map of the files written; the inner
  loop scans the teacher list and stops at the first teacher whose key is the key of the
  first row of the bucket.
\<close>

fun scanTeachers ::
  "TeacherRecord list \<Rightarrow> string \<Rightarrow> string \<Rightarrow> (string, string list) gomap
    \<Rightarrow> (string, string list) gomap" where
  "scanTeachers [] matchKey filename teacherFiles = teacherFiles"
| "scanTeachers (teacher # teachers) matchKey filename teacherFiles =
     (if teacherKey teacher = matchKey then
        AList.update (Email teacher) (bucket teacherFiles (Email teacher) @ [filename])
          teacherFiles
      else scanTeachers teachers matchKey filename teacherFiles)"

fun groupLoop ::
  "(ReportKey \<times> string) list \<Rightarrow> (ReportKey, GradeRecord list) gomap \<Rightarrow> TeacherRecord list
    \<Rightarrow> (string, string list) gomap \<Rightarrow> (string, string list) gomap" where
  "groupLoop [] rd teachers teacherFiles = teacherFiles"
| "groupLoop ((key, filename) # entries) rd teachers teacherFiles =
     (if length (bucket rd key) > 0 then
        let grade = bucket rd key ! 0
        in groupLoop entries rd teachers
             (scanTeachers teachers (gradeKey grade) filename teacherFiles)
      else groupLoop entries rd teachers teacherFiles)"

definition groupReportsByTeacher ::
  "nat list \<Rightarrow> (ReportKey, string) gomap \<Rightarrow> (ReportKey, GradeRecord list) gomap
    \<Rightarrow> TeacherRecord list \<Rightarrow> (string, string list) gomap" where
  "groupReportsByTeacher seed rf rd teachers = groupLoop (rangeOrder seed rf) rd teachers []"

fun getTeacherNameByEmail :: "TeacherRecord list \<Rightarrow> string \<Rightarrow> string" where
  "getTeacherNameByEmail [] email = email"
| "getTeacherNameByEmail (teacher # teachers) email =
     (if Email teacher = email then TeacherName teacher
      else getTeacherNameByEmail teachers email)"

section \<open>The run\<close>

record EmailSettings =
  SenderEmail :: string
  ShouldSendEmail :: string
  EmailTitle :: string

text \<open>A mail handed to \<open>sendEmail\<close>, which only prints it and reports no error.\<close>

record Mail =
  recipientEmail :: string
  recipientName :: string
  attachments :: "string list"

definition sendEmail :: "EmailSettings \<Rightarrow> string \<Rightarrow> string \<Rightarrow> string list \<Rightarrow> error option" where
  "sendEmail settings email name fls = None"

fun mailLoop ::
  "EmailSettings \<Rightarrow> TeacherRecord list \<Rightarrow> (string \<times> string list) list \<Rightarrow> Mail list
    \<Rightarrow> logEntry list \<Rightarrow> Mail list \<times> logEntry list" where
  "mailLoop settings teachers [] sent lg = (sent, lg)"
| "mailLoop settings teachers ((teacherEmail, fls) # entries) sent lg =
     (let teacherName = getTeacherNameByEmail teachers teacherEmail;
          mail = \<lparr>recipientEmail = teacherEmail, recipientName = teacherName,
                  attachments = fls\<rparr>
      in case sendEmail settings teacherEmail teacherName fls of
           Some err \<Rightarrow>
             mailLoop settings teachers entries (sent @ [mail])
               (lg @ [MailFailed teacherName teacherEmail err])
         | None \<Rightarrow> mailLoop settings teachers entries (sent @ [mail]) lg)"

datatype fatal = GradeFileUnreadable error | TeacherFileUnreadable error | NoReports

text \<open>
  The three files that \<open>main\<close> reads: the records of \<open>data/grade.csv\<close> and of
  \<open>data/teacher.csv\<close> as the CSV reader returns them, and the decoded
  \<open>data/setting.json\<close>, each of them or the error of reading it.
\<close>

record Inputs =
  gradeFile :: "error + string list list"
  teacherFile :: "error + string list list"
  settingFile :: "error + EmailSettings"

text \<open>
  What a run leaves behind: whether and why it halted, the files, the log and the mails
  handed to \<open>sendEmail\<close>, and, to state properties of the run, the buckets and the
  unmatched rows after matching, the map of the files written and the distribution plan.
\<close>

record Run =
  halted :: "fatal option"
  outputFiles :: filesystem
  runLog :: "logEntry list"
  mails :: "Mail list"
  buckets :: "(ReportKey, GradeRecord list) gomap"
  unmatched :: "GradeRecord list"
  written :: "(ReportKey, string) gomap"
  plan :: "(string, string list) gomap"

definition emptyRun :: "filesystem \<Rightarrow> Run" where
  "emptyRun fs =
     \<lparr>halted = None, outputFiles = fs, runLog = [], mails = [], buckets = [], unmatched = [],
      written = [], plan = []\<rparr>"

definition main ::
  "((GradeRecord \<Rightarrow> GradeRecord \<Rightarrow> bool) \<Rightarrow> GradeRecord list \<Rightarrow> GradeRecord list) \<Rightarrow> Env
    \<Rightarrow> Inputs \<Rightarrow> filesystem \<Rightarrow> Run" where
  "main srt env inp fs =
     (case gradeFile inp of
        Inl err \<Rightarrow> (emptyRun fs)\<lparr>halted := Some (GradeFileUnreadable err)\<rparr>
      | Inr gradeRecords \<Rightarrow>
          let (grades, csvHeaders, lg1) = readGradeCSV gradeRecords
          in case teacherFile inp of
               Inl err \<Rightarrow> (emptyRun fs)\<lparr>halted := Some (TeacherFileUnreadable err), runLog := lg1\<rparr>
             | Inr teacherRecords \<Rightarrow>
                 let teachers = readTeacherCSV teacherRecords;
                     teacherMap = buildTeacherMap teachers;
                     (rd, errorRecords) = matchStudentsToTeachers grades teacherMap;
                     (fs2, lg2) =
                       (if length errorRecords > 0 then
                          case generateErrorCSV env csvHeaders errorRecords fs of
                            Inl err \<Rightarrow> (fs, lg1 @ [ErrorCSVFailed err])
                          | Inr fs' \<Rightarrow> (fs', lg1)
                        else (fs, lg1));
                     st = generateCSVReports srt env csvHeaders rd fs2 lg2;
                     run = \<lparr>halted = None, outputFiles = files st, runLog = logged st, mails = [],
                            buckets = rd, unmatched = errorRecords, written = reportFiles st,
                            plan = []\<rparr>
                 in if length (reportFiles st) = 0 then run\<lparr>halted := Some NoReports\<rparr>
                    else case settingFile inp of
                           Inl err \<Rightarrow> run\<lparr>runLog := logged st @ [SettingsFailed err]\<rparr>
                         | Inr settings \<Rightarrow>
                             if ShouldSendEmail settings = ''true'' then
                               let teacherFiles =
                                     groupReportsByTeacher (seedFiles env) (reportFiles st)
                                       (reportData st) teachers;
                                   (sent, lg3) =
                                     mailLoop settings teachers
                                       (rangeOrder (seedMail env) teacherFiles) [] (logged st)
                               in run\<lparr>runLog := lg3, mails := sent, plan := teacherFiles\<rparr>
                             else run)"

section \<open>Notions used in the statements\<close>

text \<open>The path of the export of the unmatched rows.\<close>

definition errorPath :: string where
  "errorPath = filepath_Join [outputDir, ''error.csv'']"

text \<open>
  What \<open>main\<close> has done to the file system and to the log when it comes to write the
  reports: it has called \<open>generateErrorCSV\<close> if and only if there are unmatched rows.
\<close>

definition afterErrorExport ::
  "Env \<Rightarrow> string list \<Rightarrow> GradeRecord list \<Rightarrow> filesystem \<Rightarrow> filesystem" where
  "afterErrorExport env hdr errs fs =
     (if errs \<noteq> [] \<and> \<not> mkdirFails env \<and> \<not> createFails env errorPath
      then fs(errorPath \<mapsto> hdr # map Row errs) else fs)"

definition errorExportLog :: "Env \<Rightarrow> GradeRecord list \<Rightarrow> logEntry list" where
  "errorExportLog env errs =
     (if errs = [] then []
      else if mkdirFails env then [ErrorCSVFailed MkdirError]
      else if createFails env errorPath then [ErrorCSVFailed (CreateError errorPath)]
      else [])"

text \<open>
  A report key is plain when the three fields that make the file name hold no path
  separator and the teacher name and the grade level hold no underscore.
\<close>

definition plainKey :: "ReportKey \<Rightarrow> bool" where
  "plainKey k \<longleftrightarrow>
     CHR ''/'' \<notin> set (TeacherName_rk k) \<union> set (Year_rk k) \<union> set (SubjectName_rk k) \<and>
     CHR ''_'' \<notin> set (TeacherName_rk k) \<union> set (Year_rk k)"

text \<open>
  The order the report writer is meant to produce, in the words of the specification:
  by class as a string, and within a class by seat number, compared as numbers when both
  seat numbers parse and as strings otherwise. \<open>reportOrder a b\<close> says that \<open>a\<close> may
  stand before \<open>b\<close>.
\<close>

definition reportOrder :: "GradeRecord \<Rightarrow> GradeRecord \<Rightarrow> bool" where
  "reportOrder a b \<longleftrightarrow>
     Class_g a < Class_g b \<or>
     (Class_g a = Class_g b \<and>
      (case (Atoi (SeatNumber_g a), Atoi (SeatNumber_g b)) of
         (Some seatA, Some seatB) \<Rightarrow> seatA \<le> seatB
       | _ \<Rightarrow> SeatNumber_g a \<le> SeatNumber_g b))"

text \<open>
  The seat numbers of a list of rows are uniform when no class has both a seat number that
  parses as an integer and one that does not.
\<close>

definition uniformSeats :: "GradeRecord list \<Rightarrow> bool" where
  "uniformSeats grades \<longleftrightarrow>
     (\<forall>a\<in>set grades. \<forall>b\<in>set grades.
        Class_g a = Class_g b \<longrightarrow>
        (Atoi (SeatNumber_g a) = None) = (Atoi (SeatNumber_g b) = None))"

text \<open>
  The address a report goes to, in the words of the specification: take one row of the
  bucket of the report key (the first), take the first teacher of the teacher list whose
  key is the key of that row, and take that teacher's email.
\<close>

definition recipient ::
  "(ReportKey, GradeRecord list) gomap \<Rightarrow> TeacherRecord list \<Rightarrow> ReportKey \<Rightarrow> string option"
  where
  "recipient rd teachers key =
     (case bucket rd key of
        [] \<Rightarrow> None
      | grade # _ \<Rightarrow> map_option Email (find (\<lambda>t. teacherKey t = gradeKey grade) teachers))"

section \<open>Sample data\<close>

definition aliceRow :: "string list" where
  "aliceRow =
     [''MATH'', ''Math'', ''S1'', ''7'', ''1'', ''1'', ''Alice'', '''', '''', '''', '''', '''',
      '''', ''90'']"

definition leeRow :: "string list" where
  "leeRow = [''MATH'', ''Math'', ''7'', ''1'', '''', ''Mr.Lee'', ''lee@x.org'']"

definition leeKey :: ReportKey where
  "leeKey = \<lparr>TeacherName_rk = ''Mr.Lee'', Year_rk = ''7'', SubjectCode_rk = ''MATH'',
             SubjectName_rk = ''Math''\<rparr>"

text \<open>
  A grade file with a header of 8 columns and rows of 7 fields, of 9 fields and of 3 fields.
\<close>

definition raggedFile :: "string list list" where
  "raggedFile =
     [replicate 8 ''h'', replicate 7 ''a'', replicate 9 ''b'', replicate 3 ''c'']"

text \<open>
  A run with one matched row (Alice, taught by Mr. Lee) and one row without a teacher
  (Bob), in an environment where every write succeeds and in one where no file can be
  created.
\<close>

definition bobRow :: "string list" where
  "bobRow = [''ART'', ''Art'', ''S2'', ''7'', ''1'', ''2'', ''Bob'']"

definition sampleInputs :: Inputs where
  "sampleInputs =
     \<lparr>gradeFile = Inr [replicate 14 ''h'', aliceRow, bobRow],
      teacherFile = Inr [replicate 7 ''h'', leeRow],
      settingFile = Inr \<lparr>SenderEmail = ''office@x.org'', ShouldSendEmail = ''true'',
                         EmailTitle = ''Grades''\<rparr>\<rparr>"

definition goodEnv :: Env where
  "goodEnv = \<lparr>mkdirFails = False, createFails = (\<lambda>p. False), seedReports = [],
              seedFiles = [], seedMail = []\<rparr>"

definition fullDiskEnv :: Env where
  "fullDiskEnv = goodEnv\<lparr>createFails := (\<lambda>p. True)\<rparr>"

text \<open>Three rows of one class with the seat numbers 9, 10 and 1a.\<close>

definition seat9 :: GradeRecord where
  "seat9 = \<lparr>Row = [''MATH'', ''Math'', ''S1'', ''7'', ''1'', ''9'', ''Ann'']\<rparr>"

definition seat10 :: GradeRecord where
  "seat10 = \<lparr>Row = [''MATH'', ''Math'', ''S2'', ''7'', ''1'', ''10'', ''Ben'']\<rparr>"

definition seat1a :: GradeRecord where
  "seat1a = \<lparr>Row = [''MATH'', ''Math'', ''S3'', ''7'', ''1'', ''1a'', ''Cy'']\<rparr>"

text \<open>
  Two subject codes with one subject name: Mr. Lee teaches M1 in class 1 and M2 in class 2,
  both called Math.
\<close>

definition aliceM1 :: "string list" where
  "aliceM1 = [''M1'', ''Math'', ''S1'', ''7'', ''1'', ''1'', ''Alice'']"

definition carolM2 :: "string list" where
  "carolM2 = [''M2'', ''Math'', ''S3'', ''7'', ''2'', ''1'', ''Carol'']"

definition twoCodesInputs :: Inputs where
  "twoCodesInputs =
     \<lparr>gradeFile = Inr [replicate 7 ''h'', aliceM1, carolM2],
      teacherFile = Inr [replicate 7 ''h'',
                          [''M1'', ''Math'', ''7'', ''1'', '''', ''Mr.Lee'', ''lee@x.org''],
                          [''M2'', ''Math'', ''7'', ''2'', '''', ''Mr.Lee'', ''lee@x.org'']],
      settingFile = Inr \<lparr>SenderEmail = ''office@x.org'', ShouldSendEmail = ''true'',
                         EmailTitle = ''Grades''\<rparr>\<rparr>"

definition mathKey1 :: ReportKey where
  "mathKey1 = \<lparr>TeacherName_rk = ''Mr.Lee'', Year_rk = ''7'', SubjectCode_rk = ''M1'',
               SubjectName_rk = ''Math''\<rparr>"

definition mathKey2 :: ReportKey where
  "mathKey2 = \<lparr>TeacherName_rk = ''Mr.Lee'', Year_rk = ''7'', SubjectCode_rk = ''M2'',
               SubjectName_rk = ''Math''\<rparr>"

text \<open>Two subjects with two teachers: Alice in Math with Mr. Lee, Dave in Art with Ms. Kim.\<close>

definition daveRow :: "string list" where
  "daveRow = [''ART'', ''Art'', ''S4'', ''7'', ''1'', ''3'', ''Dave'']"

definition kimRow :: "string list" where
  "kimRow = [''ART'', ''Art'', ''7'', ''1'', '''', ''Ms.Kim'', ''kim@x.org'']"

definition kimKey :: ReportKey where
  "kimKey = \<lparr>TeacherName_rk = ''Ms.Kim'', Year_rk = ''7'', SubjectCode_rk = ''ART'',
             SubjectName_rk = ''Art''\<rparr>"

definition twoSubjectsInputs :: Inputs where
  "twoSubjectsInputs =
     \<lparr>gradeFile = Inr [replicate 7 ''h'', take 7 aliceRow, daveRow],
      teacherFile = Inr [replicate 7 ''h'', leeRow, kimRow],
      settingFile = Inr \<lparr>SenderEmail = ''office@x.org'', ShouldSendEmail = ''true'',
                         EmailTitle = ''Grades''\<rparr>\<rparr>"

text \<open>Two teacher rows with one key: Ms. Kim first, Mr. Lee second.\<close>

definition kimMathRow :: "string list" where
  "kimMathRow = [''MATH'', ''Math'', ''7'', ''1'', ''A'', ''Ms.Kim'', ''kim@x.org'']"

definition dupInputs :: Inputs where
  "dupInputs =
     \<lparr>gradeFile = Inr [replicate 7 ''h'', take 7 aliceRow],
      teacherFile = Inr [replicate 7 ''h'', kimMathRow, leeRow],
      settingFile = Inr \<lparr>SenderEmail = ''office@x.org'', ShouldSendEmail = ''true'',
                         EmailTitle = ''Grades''\<rparr>\<rparr>"

text \<open>
  Rows with white space around the fields: a grade row of Alice in subject MATH, whose
  subject name is Math, and two teacher rows with its key, Ms. Kim first and Mr. Lee second,
  whose subject names are Maths and Mathematics.
\<close>

definition spacedAlice :: "string list" where
  "spacedAlice = [''MATH '', '' Math'', ''S1'', '' 7'', ''1 '', ''1'', ''Alice'', ''B'']"

definition spacedLee :: "string list" where
  "spacedLee = ['' MATH'', ''Mathematics'', ''7 '', '' 1'', ''A'', '' Mr.Lee '', ''lee@x.org '']"

definition spacedKim :: "string list" where
  "spacedKim = [''MATH'', ''Maths'', ''7'', ''1'', ''C'', ''Ms.Kim'', '' kim@x.org'']"

definition spacedKey :: ReportKey where
  "spacedKey = \<lparr>TeacherName_rk = ''Mr.Lee'', Year_rk = ''7'', SubjectCode_rk = ''MATH'',
                SubjectName_rk = ''Math''\<rparr>"

text \<open>
  Two teacher rows with underscores: subject code \<open>A_B\<close> in grade level \<open>C\<close>, and subject
  code \<open>A\<close> in grade level \<open>B_C\<close>, both in class \<open>D\<close>.
\<close>

definition underscoreRows :: "string list list" where
  "underscoreRows =
     [replicate 7 ''h'',
      [''A_B'', ''n'', ''C'', ''D'', '''', ''T1'', ''e1''],
      [''A'', ''n'', ''B_C'', ''D'', '''', ''T2'', ''e2'']]"

text \<open>
  A grade row of subject code \<open>A_B\<close> and grade level \<open>C\<close>, with a subject name of its own,
  and the key of its bucket when it is matched to the teacher \<open>T2\<close>.
\<close>

definition underscoreGrade :: "string list" where
  "underscoreGrade = [''A_B'', ''m'', ''S1'', ''C'', ''D'', ''1'', ''Ann'']"

definition underscoreKey :: ReportKey where
  "underscoreKey = \<lparr>TeacherName_rk = ''T2'', Year_rk = ''C'', SubjectCode_rk = ''A_B'',
                    SubjectName_rk = ''m''\<rparr>"




section \<open>The teacher index\<close>

lemma teacherLoop_eq:
  "teacherLoop i records acc =
     acc @ map teacherOfRecord
             (filter (\<lambda>r. 7 \<le> length r) (if i = 0 then drop 1 records else records))"
  by (induction records arbitrary: i acc) (auto simp: not_less)

lemma readTeacherCSV_eq:
  "readTeacherCSV records = map teacherOfRecord (filter (\<lambda>r. 7 \<le> length r) (drop 1 records))"
  by (simp add: readTeacherCSV_def teacherLoop_eq)

lemma buildLoop_lookup:
  "map_of (buildLoop ts m) k =
     (case filter (\<lambda>t. teacherKey t = k) ts of
        [] \<Rightarrow> map_of m k
      | t # rest \<Rightarrow> Some (last (t # rest)))"
  by (induction ts arbitrary: m) (auto simp: update_conv' split: list.splits)

lemma buildLoop_distinct:
  "distinct (map fst m) \<Longrightarrow> distinct (map fst (buildLoop ts m))"
  by (induction ts arbitrary: m) (auto simp: distinct_update)

lemma buildTeacherMap_lookup:
  "map_of (buildTeacherMap ts) k =
     (case filter (\<lambda>t. teacherKey t = k) ts of [] \<Rightarrow> None | t # rest \<Rightarrow> Some (last (t # rest)))"
  by (simp add: buildTeacherMap_def buildLoop_lookup split: list.splits)

lemma set_update_subset:
  "(k', v') \<in> set (AList.update k v m) \<Longrightarrow> (k', v') = (k, v) \<or> (k', v') \<in> set m"
  by (induction m) (auto split: if_splits)

text \<open>The index holds every teacher under the teacher's own key.\<close>

lemma buildLoop_keys:
  "\<forall>(k, t)\<in>set m. k = teacherKey t \<Longrightarrow> \<forall>(k, t)\<in>set (buildLoop ts m). k = teacherKey t"
proof (induction ts arbitrary: m)
  case Nil
  then show ?case by simp
next
  case (Cons t ts)
  have "\<forall>(k, t')\<in>set (AList.update (teacherKey t) t m). k = teacherKey t'"
    using Cons.prems by (auto dest!: set_update_subset)
  from Cons.IH[OF this] show ?case by simp
qed

lemma buildTeacherMap_own_key:
  assumes "map_of (buildTeacherMap ts) k = Some t"
  shows "k = teacherKey t"
proof -
  from assms have "(k, t) \<in> set (buildTeacherMap ts)" by (rule map_of_SomeD)
  moreover have "\<forall>(k, t)\<in>set (buildTeacherMap ts). k = teacherKey t"
    unfolding buildTeacherMap_def by (rule buildLoop_keys) simp
  ultimately show ?thesis by auto
qed

section \<open>Matching\<close>

lemmas Field_defs = FieldSubjectCode_def FieldSubjectName_def FieldStudentID_def FieldYear_def
  FieldClass_def FieldSeatNumber_def FieldStudentName_def FieldGroup_def FieldScore_def

lemma bucket_Nil: "bucket [] k = []"
  by (simp add: bucket_def)

lemma bucket_update:
  "bucket (AList.update k v m) k' = (if k' = k then v else bucket m k')"
  by (simp add: bucket_def update_conv')

lemma count_list_filter: "count_list (filter P xs) x = (if P x then count_list xs x else 0)"
  by (induction xs) auto

lemma getField_update:
  "i \<noteq> j \<Longrightarrow> getField (g\<lparr>Row := (Row g)[j := x]\<rparr>) i = getField g i"
  by (simp add: getField_def)

lemma matchLoop_bucket:
  "bucket (fst (matchLoop gs tm rd errs)) k =
     bucket rd k @
     filter (\<lambda>g. map_option (\<lambda>t. reportKeyOf t g) (map_of tm (gradeKey g)) = Some k) gs"
  by (induction gs arbitrary: rd errs) (auto simp: bucket_update Let_def split: option.splits)

lemma matchLoop_errors:
  "snd (matchLoop gs tm rd errs) = errs @ filter (\<lambda>g. map_of tm (gradeKey g) = None) gs"
  by (induction gs arbitrary: rd errs) (auto simp: Let_def split: option.splits)

lemma matchLoop_distinct:
  "distinct (map fst rd) \<Longrightarrow> distinct (map fst (fst (matchLoop gs tm rd errs)))"
  by (induction gs arbitrary: rd errs) (auto simp: Let_def distinct_update split: option.splits)

lemma match_bucket:
  "bucket (fst (matchStudentsToTeachers grades tm)) k =
     filter (\<lambda>g. map_option (\<lambda>t. reportKeyOf t g) (map_of tm (gradeKey g)) = Some k) grades"
  by (simp add: matchStudentsToTeachers_def matchLoop_bucket bucket_Nil)

lemma match_errors:
  "snd (matchStudentsToTeachers grades tm) = filter (\<lambda>g. map_of tm (gradeKey g) = None) grades"
  by (simp add: matchStudentsToTeachers_def matchLoop_errors)

lemma match_distinct: "distinct (map fst (fst (matchStudentsToTeachers grades tm)))"
  by (simp add: matchStudentsToTeachers_def matchLoop_distinct)

text \<open>
  C1. A grade row of at least 7 fields matches a teacher when the index holds the teacher
  under the key of the row: the text made of the row's trimmed subject code, grade level
  and class, joined by underscores. This is so whenever a teacher held by the index built
  from the teacher list has these three fields. The group field of the row (column 7) is no
  part of the key. Such a row is in the bucket whose key is the name of the teacher found
  together with the row's own trimmed grade level, subject code and subject name, as often
  as it is among the grade rows; it is in no other bucket and not among the unmatched rows.
\<close>

theorem matched_row_in_one_bucket:
  assumes "matchStudentsToTeachers grades teacherMap = (rd, errorRecords)"
    and "g \<in> set grades" and "7 \<le> length (Row g)"
    and "map_of teacherMap
           (TrimSpace (Row g ! 0) @ ''_'' @ TrimSpace (Row g ! 3) @ ''_'' @ TrimSpace (Row g ! 4))
           = Some teacher \<or>
         (teacherMap = buildTeacherMap teachers \<and> teacher \<in> ran (map_of teacherMap) \<and>
          SubjectCode teacher = TrimSpace (Row g ! 0) \<and> Year teacher = TrimSpace (Row g ! 3) \<and>
          Class teacher = TrimSpace (Row g ! 4))"
    and "key = \<lparr>TeacherName_rk = TeacherName teacher, Year_rk = TrimSpace (Row g ! 3),
                 SubjectCode_rk = TrimSpace (Row g ! 0), SubjectName_rk = TrimSpace (Row g ! 1)\<rparr>"
  shows "g \<in> set (bucket rd key) \<and>
         (\<forall>k. g \<in> set (bucket rd k) \<longrightarrow> k = key) \<and>
         count_list (bucket rd key) g = count_list grades g \<and>
         g \<notin> set errorRecords \<and>
         distinct (map fst rd) \<and>
         map_of teacherMap (gradeKey g) = Some teacher \<and>
         gradeKey g =
           TrimSpace (Row g ! 0) @ ''_'' @ TrimSpace (Row g ! 3) @ ''_'' @ TrimSpace (Row g ! 4) \<and>
         gradeKey (g\<lparr>Row := (Row g)[7 := x]\<rparr>) = gradeKey g"
proof -
  have f: "SubjectCode_g g = TrimSpace (Row g ! 0)" "SubjectName_g g = TrimSpace (Row g ! 1)"
    "Year_g g = TrimSpace (Row g ! 3)" "Class_g g = TrimSpace (Row g ! 4)"
    using assms(3)
    by (auto simp: SubjectCode_g_def SubjectName_g_def Year_g_def Class_g_def getField_def
          Field_defs)
  have gk: "gradeKey g =
      TrimSpace (Row g ! 0) @ ''_'' @ TrimSpace (Row g ! 3) @ ''_'' @ TrimSpace (Row g ! 4)"
    by (simp add: gradeKey_def indexKey_def f)
  have hit: "map_of teacherMap (gradeKey g) = Some teacher"
    using assms(4)
  proof
    assume "map_of teacherMap
           (TrimSpace (Row g ! 0) @ ''_'' @ TrimSpace (Row g ! 3) @ ''_'' @ TrimSpace (Row g ! 4))
           = Some teacher"
    then show ?thesis by (simp add: gk)
  next
    assume a: "teacherMap = buildTeacherMap teachers \<and> teacher \<in> ran (map_of teacherMap) \<and>
          SubjectCode teacher = TrimSpace (Row g ! 0) \<and> Year teacher = TrimSpace (Row g ! 3) \<and>
          Class teacher = TrimSpace (Row g ! 4)"
    then obtain k where k: "map_of (buildTeacherMap teachers) k = Some teacher"
      by (auto simp: ran_def)
    from buildTeacherMap_own_key[OF this] a have "k = gradeKey g"
      by (simp add: teacherKey_def gradeKey_def f)
    with k a show ?thesis by simp
  qed
  have key: "reportKeyOf teacher g = key"
    by (simp add: reportKeyOf_def f assms(5))
  have rd: "rd = fst (matchStudentsToTeachers grades teacherMap)"
    and er: "errorRecords = snd (matchStudentsToTeachers grades teacherMap)"
    using assms(1) by simp_all
  have grp: "gradeKey (g\<lparr>Row := (Row g)[7 := x]\<rparr>) = gradeKey g"
    by (simp add: gradeKey_def SubjectCode_g_def Year_g_def Class_g_def getField_update
          Field_defs)
  have d: "distinct (map fst rd)"
    by (simp add: rd match_distinct)
  have ne: "g \<notin> set errorRecords"
    using hit by (simp add: er match_errors)
  have b: "g \<in> set (bucket rd key) \<and> (\<forall>k. g \<in> set (bucket rd k) \<longrightarrow> k = key) \<and>
         count_list (bucket rd key) g = count_list grades g"
    using assms(2) hit key by (auto simp: rd match_bucket count_list_filter)
  from b ne d hit gk grp show ?thesis by blast
qed

theorem matched_row_in_one_bucket_witness:
  "matchStudentsToTeachers [\<lparr>Row = spacedAlice\<rparr>]
     (buildTeacherMap (readTeacherCSV [replicate 7 ''h'', spacedKim, spacedLee]))
     = ([(spacedKey, [\<lparr>Row = spacedAlice\<rparr>])], []) \<and>
   \<lparr>Row = spacedAlice\<rparr> \<in> set [\<lparr>Row = spacedAlice\<rparr>] \<and>
   7 \<le> length (Row \<lparr>Row = spacedAlice\<rparr>) \<and>
   map_of (buildTeacherMap (readTeacherCSV [replicate 7 ''h'', spacedKim, spacedLee]))
     (TrimSpace (Row \<lparr>Row = spacedAlice\<rparr> ! 0) @ ''_'' @
      TrimSpace (Row \<lparr>Row = spacedAlice\<rparr> ! 3) @ ''_'' @
      TrimSpace (Row \<lparr>Row = spacedAlice\<rparr> ! 4))
     = Some \<lparr>SubjectCode = ''MATH'', SubjectName = ''Mathematics'', Year = ''7'', Class = ''1'',
             Group = ''A'', TeacherName = ''Mr.Lee'', Email = ''lee@x.org''\<rparr> \<and>
   \<lparr>SubjectCode = ''MATH'', SubjectName = ''Mathematics'', Year = ''7'', Class = ''1'',
     Group = ''A'', TeacherName = ''Mr.Lee'', Email = ''lee@x.org''\<rparr>
     \<in> ran (map_of (buildTeacherMap (readTeacherCSV [replicate 7 ''h'', spacedKim, spacedLee]))) \<and>
   ''MATH'' = TrimSpace (Row \<lparr>Row = spacedAlice\<rparr> ! 0) \<and>
   ''7'' = TrimSpace (Row \<lparr>Row = spacedAlice\<rparr> ! 3) \<and>
   ''1'' = TrimSpace (Row \<lparr>Row = spacedAlice\<rparr> ! 4) \<and>
   spacedKey =
     \<lparr>TeacherName_rk = TeacherName \<lparr>SubjectCode = ''MATH'', SubjectName = ''Mathematics'',
                          Year = ''7'', Class = ''1'', Group = ''A'', TeacherName = ''Mr.Lee'',
                          Email = ''lee@x.org''\<rparr>,
      Year_rk = TrimSpace (Row \<lparr>Row = spacedAlice\<rparr> ! 3),
      SubjectCode_rk = TrimSpace (Row \<lparr>Row = spacedAlice\<rparr> ! 0),
      SubjectName_rk = TrimSpace (Row \<lparr>Row = spacedAlice\<rparr> ! 1)\<rparr> \<and>
   \<lparr>Row = spacedAlice\<rparr> \<in> set (bucket [(spacedKey, [\<lparr>Row = spacedAlice\<rparr>])] spacedKey) \<and>
   count_list (bucket [(spacedKey, [\<lparr>Row = spacedAlice\<rparr>])] spacedKey) \<lparr>Row = spacedAlice\<rparr>
     = count_list [\<lparr>Row = spacedAlice\<rparr>] \<lparr>Row = spacedAlice\<rparr> \<and>
   \<lparr>Row = spacedAlice\<rparr> \<notin> set [] \<and>
   gradeKey \<lparr>Row = spacedAlice\<rparr> = ''MATH_7_1'' \<and>
   map_of (buildTeacherMap (readTeacherCSV [replicate 7 ''h'', spacedKim, spacedLee]))
     (gradeKey \<lparr>Row = spacedAlice\<rparr>)
     = Some \<lparr>SubjectCode = ''MATH'', SubjectName = ''Mathematics'', Year = ''7'', Class = ''1'',
             Group = ''A'', TeacherName = ''Mr.Lee'', Email = ''lee@x.org''\<rparr> \<and>
   matchStudentsToTeachers [\<lparr>Row = underscoreGrade\<rparr>]
     (buildTeacherMap (readTeacherCSV underscoreRows))
     = ([(underscoreKey, [\<lparr>Row = underscoreGrade\<rparr>])], []) \<and>
   map_of (buildTeacherMap (readTeacherCSV underscoreRows))
     (TrimSpace (Row \<lparr>Row = underscoreGrade\<rparr> ! 0) @ ''_'' @
      TrimSpace (Row \<lparr>Row = underscoreGrade\<rparr> ! 3) @ ''_'' @
      TrimSpace (Row \<lparr>Row = underscoreGrade\<rparr> ! 4))
     = Some \<lparr>SubjectCode = ''A'', SubjectName = ''n'', Year = ''B_C'', Class = ''D'',
             Group = '''', TeacherName = ''T2'', Email = ''e2''\<rparr> \<and>
   underscoreKey =
     \<lparr>TeacherName_rk = TeacherName \<lparr>SubjectCode = ''A'', SubjectName = ''n'', Year = ''B_C'',
                          Class = ''D'', Group = '''', TeacherName = ''T2'', Email = ''e2''\<rparr>,
      Year_rk = TrimSpace (Row \<lparr>Row = underscoreGrade\<rparr> ! 3),
      SubjectCode_rk = TrimSpace (Row \<lparr>Row = underscoreGrade\<rparr> ! 0),
      SubjectName_rk = TrimSpace (Row \<lparr>Row = underscoreGrade\<rparr> ! 1)\<rparr> \<and>
   underscoreKey =
     \<lparr>TeacherName_rk = ''T2'', Year_rk = ''C'', SubjectCode_rk = ''A_B'',
      SubjectName_rk = ''m''\<rparr> \<and>
   \<lparr>Row = underscoreGrade\<rparr>
     \<in> set (bucket [(underscoreKey, [\<lparr>Row = underscoreGrade\<rparr>])] underscoreKey)"
proof -
  have h1: "matchStudentsToTeachers [\<lparr>Row = spacedAlice\<rparr>]
     (buildTeacherMap (readTeacherCSV [replicate 7 ''h'', spacedKim, spacedLee]))
     = ([(spacedKey, [\<lparr>Row = spacedAlice\<rparr>])], [])"
    by code_simp
  have h2: "\<lparr>Row = spacedAlice\<rparr> \<in> set [\<lparr>Row = spacedAlice\<rparr>]"
    by simp
  have h3: "7 \<le> length (Row \<lparr>Row = spacedAlice\<rparr>)"
    by code_simp
  have h4: "map_of (buildTeacherMap (readTeacherCSV [replicate 7 ''h'', spacedKim, spacedLee]))
     (TrimSpace (Row \<lparr>Row = spacedAlice\<rparr> ! 0) @ ''_'' @
      TrimSpace (Row \<lparr>Row = spacedAlice\<rparr> ! 3) @ ''_'' @
      TrimSpace (Row \<lparr>Row = spacedAlice\<rparr> ! 4))
     = Some \<lparr>SubjectCode = ''MATH'', SubjectName = ''Mathematics'', Year = ''7'', Class = ''1'',
             Group = ''A'', TeacherName = ''Mr.Lee'', Email = ''lee@x.org''\<rparr>"
    by code_simp
  have h5: "spacedKey =
     \<lparr>TeacherName_rk = TeacherName \<lparr>SubjectCode = ''MATH'', SubjectName = ''Mathematics'',
                          Year = ''7'', Class = ''1'', Group = ''A'', TeacherName = ''Mr.Lee'',
                          Email = ''lee@x.org''\<rparr>,
      Year_rk = TrimSpace (Row \<lparr>Row = spacedAlice\<rparr> ! 3),
      SubjectCode_rk = TrimSpace (Row \<lparr>Row = spacedAlice\<rparr> ! 0),
      SubjectName_rk = TrimSpace (Row \<lparr>Row = spacedAlice\<rparr> ! 1)\<rparr>"
    by code_simp
  have r: "\<lparr>SubjectCode = ''MATH'', SubjectName = ''Mathematics'', Year = ''7'', Class = ''1'',
     Group = ''A'', TeacherName = ''Mr.Lee'', Email = ''lee@x.org''\<rparr>
     \<in> ran (map_of (buildTeacherMap (readTeacherCSV [replicate 7 ''h'', spacedKim, spacedLee])))"
    using h4 by (rule ranI)
  have t0: "''MATH'' = TrimSpace (Row \<lparr>Row = spacedAlice\<rparr> ! 0)"
    and t3: "''7'' = TrimSpace (Row \<lparr>Row = spacedAlice\<rparr> ! 3)"
    and t4: "''1'' = TrimSpace (Row \<lparr>Row = spacedAlice\<rparr> ! 4)"
    by code_simp+
  have k: "TrimSpace (Row \<lparr>Row = spacedAlice\<rparr> ! 0) @ ''_'' @
      TrimSpace (Row \<lparr>Row = spacedAlice\<rparr> ! 3) @ ''_'' @
      TrimSpace (Row \<lparr>Row = spacedAlice\<rparr> ! 4) = ''MATH_7_1''"
    by code_simp
  note byKey = matched_row_in_one_bucket[OF h1 h2 h3 disjI1[OF h4] h5]
  from byKey
  have c1: "\<lparr>Row = spacedAlice\<rparr> \<in> set (bucket [(spacedKey, [\<lparr>Row = spacedAlice\<rparr>])] spacedKey)"
    and c2: "count_list (bucket [(spacedKey, [\<lparr>Row = spacedAlice\<rparr>])] spacedKey)
               \<lparr>Row = spacedAlice\<rparr> = count_list [\<lparr>Row = spacedAlice\<rparr>] \<lparr>Row = spacedAlice\<rparr>"
    and c3: "\<lparr>Row = spacedAlice\<rparr> \<notin> set []"
    and c4: "gradeKey \<lparr>Row = spacedAlice\<rparr> =
      TrimSpace (Row \<lparr>Row = spacedAlice\<rparr> ! 0) @ ''_'' @
      TrimSpace (Row \<lparr>Row = spacedAlice\<rparr> ! 3) @ ''_'' @
      TrimSpace (Row \<lparr>Row = spacedAlice\<rparr> ! 4)"
    by blast+
  from c4 k have c5: "gradeKey \<lparr>Row = spacedAlice\<rparr> = ''MATH_7_1''"
    by (rule trans)
  have fields: "SubjectCode \<lparr>SubjectCode = ''MATH'', SubjectName = ''Mathematics'', Year = ''7'',
        Class = ''1'', Group = ''A'', TeacherName = ''Mr.Lee'', Email = ''lee@x.org''\<rparr>
        = TrimSpace (Row \<lparr>Row = spacedAlice\<rparr> ! 0) \<and>
      Year \<lparr>SubjectCode = ''MATH'', SubjectName = ''Mathematics'', Year = ''7'',
        Class = ''1'', Group = ''A'', TeacherName = ''Mr.Lee'', Email = ''lee@x.org''\<rparr>
        = TrimSpace (Row \<lparr>Row = spacedAlice\<rparr> ! 3) \<and>
      Class \<lparr>SubjectCode = ''MATH'', SubjectName = ''Mathematics'', Year = ''7'',
        Class = ''1'', Group = ''A'', TeacherName = ''Mr.Lee'', Email = ''lee@x.org''\<rparr>
        = TrimSpace (Row \<lparr>Row = spacedAlice\<rparr> ! 4)"
    using t0 t3 t4 by simp
  note byFields =
    matched_row_in_one_bucket[OF h1 h2 h3 disjI2[OF conjI[OF refl conjI[OF r fields]]] h5]
  from byFields
  have c6: "map_of (buildTeacherMap (readTeacherCSV [replicate 7 ''h'', spacedKim, spacedLee]))
     (gradeKey \<lparr>Row = spacedAlice\<rparr>)
     = Some \<lparr>SubjectCode = ''MATH'', SubjectName = ''Mathematics'', Year = ''7'', Class = ''1'',
             Group = ''A'', TeacherName = ''Mr.Lee'', Email = ''lee@x.org''\<rparr>"
    by blast
  have u1: "matchStudentsToTeachers [\<lparr>Row = underscoreGrade\<rparr>]
     (buildTeacherMap (readTeacherCSV underscoreRows))
     = ([(underscoreKey, [\<lparr>Row = underscoreGrade\<rparr>])], [])"
    by code_simp
  have u2: "\<lparr>Row = underscoreGrade\<rparr> \<in> set [\<lparr>Row = underscoreGrade\<rparr>]"
    by simp
  have u3: "7 \<le> length (Row \<lparr>Row = underscoreGrade\<rparr>)"
    by code_simp
  have u4: "map_of (buildTeacherMap (readTeacherCSV underscoreRows))
     (TrimSpace (Row \<lparr>Row = underscoreGrade\<rparr> ! 0) @ ''_'' @
      TrimSpace (Row \<lparr>Row = underscoreGrade\<rparr> ! 3) @ ''_'' @
      TrimSpace (Row \<lparr>Row = underscoreGrade\<rparr> ! 4))
     = Some \<lparr>SubjectCode = ''A'', SubjectName = ''n'', Year = ''B_C'', Class = ''D'',
             Group = '''', TeacherName = ''T2'', Email = ''e2''\<rparr>"
    by code_simp
  have u5: "underscoreKey =
     \<lparr>TeacherName_rk = TeacherName \<lparr>SubjectCode = ''A'', SubjectName = ''n'', Year = ''B_C'',
                          Class = ''D'', Group = '''', TeacherName = ''T2'', Email = ''e2''\<rparr>,
      Year_rk = TrimSpace (Row \<lparr>Row = underscoreGrade\<rparr> ! 3),
      SubjectCode_rk = TrimSpace (Row \<lparr>Row = underscoreGrade\<rparr> ! 0),
      SubjectName_rk = TrimSpace (Row \<lparr>Row = underscoreGrade\<rparr> ! 1)\<rparr>"
    by code_simp
  have u6: "underscoreKey =
     \<lparr>TeacherName_rk = ''T2'', Year_rk = ''C'', SubjectCode_rk = ''A_B'',
      SubjectName_rk = ''m''\<rparr>"
    by code_simp
  note byText = matched_row_in_one_bucket[OF u1 u2 u3 disjI1[OF u4] u5]
  from byText
  have u7: "\<lparr>Row = underscoreGrade\<rparr>
     \<in> set (bucket [(underscoreKey, [\<lparr>Row = underscoreGrade\<rparr>])] underscoreKey)"
    by blast
  have first: "matchStudentsToTeachers [\<lparr>Row = spacedAlice\<rparr>]
     (buildTeacherMap (readTeacherCSV [replicate 7 ''h'', spacedKim, spacedLee]))
     = ([(spacedKey, [\<lparr>Row = spacedAlice\<rparr>])], []) \<and>
   \<lparr>Row = spacedAlice\<rparr> \<in> set [\<lparr>Row = spacedAlice\<rparr>] \<and>
   7 \<le> length (Row \<lparr>Row = spacedAlice\<rparr>) \<and>
   map_of (buildTeacherMap (readTeacherCSV [replicate 7 ''h'', spacedKim, spacedLee]))
     (TrimSpace (Row \<lparr>Row = spacedAlice\<rparr> ! 0) @ ''_'' @
      TrimSpace (Row \<lparr>Row = spacedAlice\<rparr> ! 3) @ ''_'' @
      TrimSpace (Row \<lparr>Row = spacedAlice\<rparr> ! 4))
     = Some \<lparr>SubjectCode = ''MATH'', SubjectName = ''Mathematics'', Year = ''7'', Class = ''1'',
             Group = ''A'', TeacherName = ''Mr.Lee'', Email = ''lee@x.org''\<rparr> \<and>
   \<lparr>SubjectCode = ''MATH'', SubjectName = ''Mathematics'', Year = ''7'', Class = ''1'',
     Group = ''A'', TeacherName = ''Mr.Lee'', Email = ''lee@x.org''\<rparr>
     \<in> ran (map_of (buildTeacherMap (readTeacherCSV [replicate 7 ''h'', spacedKim, spacedLee]))) \<and>
   ''MATH'' = TrimSpace (Row \<lparr>Row = spacedAlice\<rparr> ! 0) \<and>
   ''7'' = TrimSpace (Row \<lparr>Row = spacedAlice\<rparr> ! 3) \<and>
   ''1'' = TrimSpace (Row \<lparr>Row = spacedAlice\<rparr> ! 4) \<and>
   spacedKey =
     \<lparr>TeacherName_rk = TeacherName \<lparr>SubjectCode = ''MATH'', SubjectName = ''Mathematics'',
                          Year = ''7'', Class = ''1'', Group = ''A'', TeacherName = ''Mr.Lee'',
                          Email = ''lee@x.org''\<rparr>,
      Year_rk = TrimSpace (Row \<lparr>Row = spacedAlice\<rparr> ! 3),
      SubjectCode_rk = TrimSpace (Row \<lparr>Row = spacedAlice\<rparr> ! 0),
      SubjectName_rk = TrimSpace (Row \<lparr>Row = spacedAlice\<rparr> ! 1)\<rparr> \<and>
   \<lparr>Row = spacedAlice\<rparr> \<in> set (bucket [(spacedKey, [\<lparr>Row = spacedAlice\<rparr>])] spacedKey) \<and>
   count_list (bucket [(spacedKey, [\<lparr>Row = spacedAlice\<rparr>])] spacedKey) \<lparr>Row = spacedAlice\<rparr>
     = count_list [\<lparr>Row = spacedAlice\<rparr>] \<lparr>Row = spacedAlice\<rparr> \<and>
   \<lparr>Row = spacedAlice\<rparr> \<notin> set [] \<and>
   gradeKey \<lparr>Row = spacedAlice\<rparr> = ''MATH_7_1'' \<and>
   map_of (buildTeacherMap (readTeacherCSV [replicate 7 ''h'', spacedKim, spacedLee]))
     (gradeKey \<lparr>Row = spacedAlice\<rparr>)
     = Some \<lparr>SubjectCode = ''MATH'', SubjectName = ''Mathematics'', Year = ''7'', Class = ''1'',
             Group = ''A'', TeacherName = ''Mr.Lee'', Email = ''lee@x.org''\<rparr>"
    using h1 h2 h3 h4 r t0 t3 t4 h5 c1 c2 c3 c5 c6 by blast
  from first u1 u4 u5 u6 u7 show ?thesis
    by blast
qed

section \<open>Admission of grade rows\<close>

lemma gradeLoop_eq:
  "gradeLoop i records hdr grades lg =
     (grades @ map (\<lambda>r. \<lparr>Row = r @ replicate (length hdr - length r) []\<rparr>)
                 (filter (\<lambda>r. 7 \<le> length r) records),
      lg @ map (\<lambda>(j, r). ShortRowWarning (j + 1) 7 (length r))
             (filter (\<lambda>(j, r). 0 < length r \<and> length r < 7) (enumerate i records)))"
  by (induction records arbitrary: i grades lg)
     (auto simp: FieldStudentName_def Let_def)

lemma readGradeCSV_eq:
  "readGradeCSV records =
     (map (\<lambda>r. \<lparr>Row = r @ replicate
                          (length (case records of [] \<Rightarrow> [] | h # _ \<Rightarrow> h) - length r) []\<rparr>)
        (filter (\<lambda>r. 7 \<le> length r) (drop 1 records)),
      (case records of [] \<Rightarrow> [] | h # _ \<Rightarrow> h),
      map (\<lambda>(j, r). ShortRowWarning (j + 1) 7 (length r))
        (filter (\<lambda>(j, r). 0 < length r \<and> length r < 7) (enumerate 1 (drop 1 records))))"
  by (cases records) (simp_all add: readGradeCSV_def gradeLoop_eq)

text \<open>
  C4, as the claim states it, fails: with a header of 8 columns, a row of 7 fields is padded
  to 8 fields and a row of 9 fields keeps its 9 fields, so the two admitted rows differ in
  width (the row of 3 fields is not admitted).
\<close>

theorem admitted_rows_differ_in_width:
  "map (\<lambda>g. length (Row g)) (fst (readGradeCSV raggedFile)) = [8, 9]"
  by code_simp

text \<open>
  C4, amended. The rows admitted are the records after the header that have at least 7
  fields, in their order. A record with fewer fields is dropped, with a warning that names
  its line, unless it has no field at all. An admitted row shorter than the header is
  padded on the right with empty strings to the width of the header; an admitted row at
  least as wide as the header is kept as it is. So every admitted row has at least 7 fields
  and at least the width of the header.
\<close>

theorem admitted_rows_padded_to_header:
  assumes "readGradeCSV records = (grades, csvHeaders, lg)"
  shows "map Row grades =
           map (\<lambda>r. r @ replicate (length csvHeaders - length r) [])
             (filter (\<lambda>r. 7 \<le> length r) (drop 1 records)) \<and>
         lg = map (\<lambda>(j, r). ShortRowWarning (j + 1) 7 (length r))
                (filter (\<lambda>(j, r). 0 < length r \<and> length r < 7)
                   (enumerate 1 (drop 1 records))) \<and>
         (\<forall>g\<in>set grades. 7 \<le> length (Row g) \<and> length csvHeaders \<le> length (Row g)) \<and>
         (\<forall>r. length csvHeaders \<le> length r \<longrightarrow>
               r @ replicate (length csvHeaders - length r) [] = r) \<and>
         (\<forall>r. length r < length csvHeaders \<longrightarrow>
               length (r @ replicate (length csvHeaders - length r) []) = length csvHeaders)"
  using assms unfolding readGradeCSV_eq by (auto simp: comp_def)

theorem admitted_rows_padded_to_header_witness:
  "readGradeCSV raggedFile =
     ([\<lparr>Row = replicate 7 ''a'' @ ['''']\<rparr>, \<lparr>Row = replicate 9 ''b''\<rparr>], replicate 8 ''h'',
      [ShortRowWarning 4 7 3]) \<and>
   map Row [\<lparr>Row = replicate 7 ''a'' @ ['''']\<rparr>, \<lparr>Row = replicate 9 ''b''\<rparr>] =
     map (\<lambda>r. r @ replicate (length (replicate 8 ''h'') - length r) [])
       (filter (\<lambda>r. 7 \<le> length r) (drop 1 raggedFile)) \<and>
   [ShortRowWarning 4 7 3] =
     map (\<lambda>(j, r). ShortRowWarning (j + 1) 7 (length r))
       (filter (\<lambda>(j, r). 0 < length r \<and> length r < 7) (enumerate 1 (drop 1 raggedFile)))"
proof -
  have h: "readGradeCSV raggedFile =
     ([\<lparr>Row = replicate 7 ''a'' @ ['''']\<rparr>, \<lparr>Row = replicate 9 ''b''\<rparr>], replicate 8 ''h'',
      [ShortRowWarning 4 7 3])"
    by code_simp
  from admitted_rows_padded_to_header[OF h] h show ?thesis
    by blast
qed

section \<open>The order of a range over a map\<close>

lemma rangeOrder_mset: "mset (rangeOrder seed xs) = mset xs"
proof (induction seed xs rule: rangeOrder.induct)
  case (3 n seed x xs)
  define ys where "ys = x # xs"
  define i where "i = n mod length ys"
  have i: "i < length ys" by (simp add: i_def ys_def)
  have "rangeOrder (n # seed) (x # xs) = ys ! i # rangeOrder seed (take i ys @ drop (Suc i) ys)"
    by (simp add: Let_def ys_def i_def del: take_Cons' drop_Suc_Cons nth_Cons')
  moreover have "mset (rangeOrder seed (take i ys @ drop (Suc i) ys)) = mset (take i ys @ drop (Suc i) ys)"
    using 3 by (simp add: ys_def i_def)
  moreover have "mset ys = mset (take i ys @ ys ! i # drop (Suc i) ys)"
    using id_take_nth_drop[OF i] by simp
  ultimately show ?case by (simp add: ys_def[symmetric])
qed simp_all

lemma rangeOrder_set: "set (rangeOrder seed xs) = set xs"
  using rangeOrder_mset[of seed xs] by (metis set_mset_mset)

lemma rangeOrder_distinct_keys:
  "distinct (map fst (rangeOrder seed xs)) = distinct (map fst xs)"
proof -
  have "mset (map fst (rangeOrder seed xs)) = mset (map fst xs)"
    by (simp add: rangeOrder_mset)
  then show ?thesis by (metis distinct_count_atmost_1 set_mset_mset)
qed

text \<open>Every order of visiting is the order of some seed.\<close>

lemma rangeOrder_complete:
  "mset ys = mset xs \<Longrightarrow> \<exists>seed. rangeOrder seed xs = ys"
proof (induction ys arbitrary: xs)
  case Nil
  then show ?case by simp
next
  case (Cons y ys)
  then have "y \<in> set xs" by (metis list.set_intros(1) set_mset_mset)
  then obtain i where i: "i < length xs" and y: "xs ! i = y"
    by (auto simp: in_set_conv_nth)
  let ?rest = "take i xs @ drop (Suc i) xs"
  have "mset xs = add_mset y (mset ?rest)"
    using id_take_nth_drop[OF i] y by (metis mset.simps(2) mset_append union_mset_add_mset_right)
  with Cons.prems have "mset ys = mset ?rest" by simp
  from Cons.IH[OF this] obtain seed where s: "rangeOrder seed ?rest = ys" by blast
  from i obtain x xs' where xs: "xs = x # xs'" by (cases xs) auto
  have "rangeOrder (i # seed) xs = y # ys"
    using i y s unfolding xs by (simp add: Let_def del: take_Cons' drop_Suc_Cons nth_Cons')
  then show ?case by blast
qed

section \<open>Sorting\<close>

lemma reportOrder_iff: "reportOrder a b = (\<not> lessGrades b a)"
  by (auto simp: reportOrder_def lessGrades_def split: option.splits)

lemma insertDown_mset: "mset (insertDown lt x ps) = add_mset x (mset ps)"
  by (induction ps) auto

lemma insertDown_set: "set (insertDown lt x ps) = insert x (set ps)"
  by (induction ps) auto

lemma insertDown_desc:
  assumes "strictWeakOn A lt" and "x \<in> A" and "set ps \<subseteq> A"
    and "sorted_wrt (\<lambda>a b. \<not> lt a b) ps"
  shows "sorted_wrt (\<lambda>a b. \<not> lt a b) (insertDown lt x ps)"
  using assms(3,4)
proof (induction ps)
  case Nil
  then show ?case by simp
next
  case (Cons p ps)
  from assms(1) have irr: "\<And>a. a \<in> A \<Longrightarrow> \<not> lt a a"
    and tr: "\<And>a b c. a \<in> A \<Longrightarrow> b \<in> A \<Longrightarrow> c \<in> A \<Longrightarrow> lt a b \<Longrightarrow> lt b c \<Longrightarrow> lt a c"
    and ntr: "\<And>a b c. a \<in> A \<Longrightarrow> b \<in> A \<Longrightarrow> c \<in> A \<Longrightarrow> \<not> lt a b \<Longrightarrow> \<not> lt b c \<Longrightarrow> \<not> lt a c"
    unfolding strictWeakOn_def by blast+
  from Cons.prems have pA: "p \<in> A" and psA: "set ps \<subseteq> A"
    and pd: "\<forall>y\<in>set ps. \<not> lt p y" and d: "sorted_wrt (\<lambda>a b. \<not> lt a b) ps"
    by auto
  show ?case
  proof (cases "lt x p")
    case True
    have "\<not> lt p x" using True irr tr assms(2) pA by blast
    with True pd Cons.IH[OF psA d] show ?thesis by (simp add: insertDown_set)
  next
    case False
    have "\<forall>y\<in>set ps. \<not> lt x y"
      using False pd ntr assms(2) pA psA by blast
    with False Cons.prems show ?thesis by simp
  qed
qed

lemma foldl_insertDown_mset:
  "mset (foldl (\<lambda>acc x. insertDown lt x acc) acc xs) = mset acc + mset xs"
  by (induction xs arbitrary: acc) (simp_all add: insertDown_mset)

lemma foldl_insertDown_desc:
  assumes "strictWeakOn A lt"
  shows "set acc \<subseteq> A \<Longrightarrow> set xs \<subseteq> A \<Longrightarrow> sorted_wrt (\<lambda>a b. \<not> lt a b) acc \<Longrightarrow>
         sorted_wrt (\<lambda>a b. \<not> lt a b) (foldl (\<lambda>acc x. insertDown lt x acc) acc xs)"
proof (induction xs arbitrary: acc)
  case Nil
  then show ?case by simp
next
  case (Cons x xs)
  have "sorted_wrt (\<lambda>a b. \<not> lt a b) (insertDown lt x acc)"
    using assms Cons.prems by (intro insertDown_desc[where A = A]) auto
  moreover have "set (insertDown lt x acc) \<subseteq> A"
    using Cons.prems by (simp add: insertDown_set)
  ultimately show ?case using Cons.IH[of "insertDown lt x acc"] Cons.prems by simp
qed

lemma insertionSort_contract: "sortContract insertionSort_func"
  unfolding sortContract_def
proof (intro conjI allI impI)
  fix lt :: "'a \<Rightarrow> 'a \<Rightarrow> bool" and xs
  show "mset (insertionSort_func lt xs) = mset xs"
    by (simp add: insertionSort_func_def foldl_insertDown_mset)
  assume "strictWeakOn (set xs) lt"
  from foldl_insertDown_desc[OF this, of "[]" xs]
  show "inOrder lt (insertionSort_func lt xs)"
    by (simp add: inOrder_def insertionSort_func_def sorted_wrt_rev)
qed

lemma lessGrades_strictWeak:
  assumes "uniformSeats grades"
  shows "strictWeakOn (set grades) lessGrades"
proof -
  have u: "\<And>a b. a \<in> set grades \<Longrightarrow> b \<in> set grades \<Longrightarrow> Class_g a = Class_g b \<Longrightarrow>
        (Atoi (SeatNumber_g a) = None) = (Atoi (SeatNumber_g b) = None)"
    using assms unfolding uniformSeats_def by blast
  have irr: "\<not> lessGrades x x" for x
    by (simp add: lessGrades_def split: option.splits)
  have tr: "lessGrades x z" if "x \<in> set grades" "y \<in> set grades" "z \<in> set grades"
    "lessGrades x y" "lessGrades y z" for x y z
  proof (cases "Class_g x = Class_g y \<and> Class_g y = Class_g z")
    case True
    with u[OF that(1,2)] u[OF that(2,3)] that(4,5) show ?thesis
      by (auto simp: lessGrades_def split: option.splits)
  next
    case False
    with that(4,5) show ?thesis
      by (auto simp: lessGrades_def split: if_splits)
  qed
  have ntr: "\<not> lessGrades x z" if "x \<in> set grades" "y \<in> set grades" "z \<in> set grades"
    "\<not> lessGrades x y" "\<not> lessGrades y z" for x y z
  proof (cases "Class_g x = Class_g y \<and> Class_g y = Class_g z")
    case True
    with u[OF that(1,2)] u[OF that(2,3)] that(4,5) show ?thesis
      by (auto simp: lessGrades_def split: option.splits)
  next
    case False
    with that(4,5) show ?thesis
      by (auto simp: lessGrades_def split: if_splits)
  qed
  show ?thesis unfolding strictWeakOn_def using irr tr ntr by blast
qed

section \<open>The order of the rows of a report\<close>

text \<open>
  C3, as the claim states it, fails: the comparison is not transitive when a class mixes
  seat numbers that parse with seat numbers that do not. With the seats 9, 10 and 1a in one
  class, 9 is before 10 as a number, 10 is before 1a as a string and 1a is before 9 as a
  string. The rows are written in the order 9, 10, 1a, in which 1a stands after 9.
\<close>

theorem mixed_seats_written_out_of_order:
  "fst (snd (createCSVReport insertionSort_func goodEnv [] ''f'' leeKey
               [seat9, seat10, seat1a] Map.empty)) = [seat9, seat10, seat1a] \<and>
   \<not> sorted_wrt reportOrder [seat9, seat10, seat1a] \<and>
   lessGrades seat1a seat9"
  by code_simp

text \<open>No order of these three rows is sorted, so the result does not depend on how the
  library sorts.\<close>

lemma mixed_seats_have_no_order:
  assumes "mset ys = mset [seat9, seat10, seat1a]"
  shows "\<not> sorted_wrt reportOrder ys"
proof
  assume s: "sorted_wrt reportOrder ys"
  have n1: "\<not> reportOrder seat10 seat9" by code_simp
  have n2: "\<not> reportOrder seat1a seat10" by code_simp
  have n3: "\<not> reportOrder seat9 seat1a" by code_simp
  have d: "seat9 \<noteq> seat10" "seat10 \<noteq> seat1a" "seat1a \<noteq> seat9" by code_simp+
  from assms have "set_mset (mset ys) = set_mset (mset [seat9, seat10, seat1a])" by simp
  then have m: "seat9 \<in> set ys" "seat10 \<in> set ys" "seat1a \<in> set ys" by simp_all
  from m(1) obtain i where i: "i < length ys" "ys ! i = seat9" by (auto simp: in_set_conv_nth)
  from m(2) obtain j where j: "j < length ys" "ys ! j = seat10" by (auto simp: in_set_conv_nth)
  from m(3) obtain k where k: "k < length ys" "ys ! k = seat1a" by (auto simp: in_set_conv_nth)
  from s have P: "\<And>a b. a < b \<Longrightarrow> b < length ys \<Longrightarrow> reportOrder (ys ! a) (ys ! b)"
    by (simp add: sorted_wrt_iff_nth_less)
  have "\<not> j < i" using P[of j i] i j n1 by auto
  moreover have "i \<noteq> j" using i j d by auto
  ultimately have ij: "i < j" by simp
  have "\<not> k < j" using P[of k j] j k n2 by auto
  moreover have "j \<noteq> k" using j k d by auto
  ultimately have jk: "j < k" by simp
  have "\<not> i < k" using P[of i k] i k n3 by auto
  with ij jk show False by simp
qed

text \<open>
  C3, amended. When no class of the bucket mixes seat numbers that parse as integers with
  seat numbers that do not, the rows written to the report file are the rows of the
  bucket, sorted by class ascending as a string and, within a class, by seat number: as
  numbers where the seat numbers parse, as strings where they do not. The comparison
  never fails: with a seat number that does not parse it compares the two seat numbers as
  strings. This holds for every sort function that keeps the promise of \<open>sort.Slice\<close>.
\<close>

theorem report_rows_in_order:
  assumes "sortContract srt" and "uniformSeats grades" and "\<not> createFails env filename"
    and "createCSVReport srt env csvHeaders filename key grades fs = (err, grades', fs')"
  shows "err = None \<and>
         fs' filename = Some (csvHeaders # map Row grades') \<and>
         mset grades' = mset grades \<and>
         sorted_wrt reportOrder grades' \<and>
         (\<forall>a b. reportOrder a b = (\<not> lessGrades b a)) \<and>
         (\<forall>a b. Class_g a = Class_g b \<and>
                 (Atoi (SeatNumber_g a) = None \<or> Atoi (SeatNumber_g b) = None) \<longrightarrow>
                 lessGrades a b = (SeatNumber_g a < SeatNumber_g b))"
proof -
  from assms(3,4) have e: "err = None" and g: "grades' = srt lessGrades grades"
    and f: "fs' = fs(filename \<mapsto> csvHeaders # map Row (srt lessGrades grades))"
    by (auto simp: createCSVReport_def Let_def)
  from assms(1) have m: "mset (srt lessGrades grades) = mset grades"
    and o: "strictWeakOn (set grades) lessGrades \<longrightarrow> inOrder lessGrades (srt lessGrades grades)"
    unfolding sortContract_def by blast+
  from o lessGrades_strictWeak[OF assms(2)] have "inOrder lessGrades (srt lessGrades grades)"
    by simp
  moreover have "reportOrder = (\<lambda>a b. \<not> lessGrades b a)"
    by (intro ext) (rule reportOrder_iff)
  ultimately have s: "sorted_wrt reportOrder grades'"
    by (simp add: inOrder_def g)
  have l: "\<forall>a b. Class_g a = Class_g b \<and>
                 (Atoi (SeatNumber_g a) = None \<or> Atoi (SeatNumber_g b) = None) \<longrightarrow>
                 lessGrades a b = (SeatNumber_g a < SeatNumber_g b)"
    by (auto simp: lessGrades_def split: option.splits)
  from e g f m s l reportOrder_iff show ?thesis by simp
qed

theorem report_rows_in_order_witness:
  "sortContract (insertionSort_func :: (GradeRecord \<Rightarrow> GradeRecord \<Rightarrow> bool) \<Rightarrow> _) \<and>
   uniformSeats [seat10, seat9, \<lparr>Row = take 7 aliceRow\<rparr>] \<and>
   \<not> createFails goodEnv ''f'' \<and>
   createCSVReport insertionSort_func goodEnv [] ''f'' leeKey
     [seat10, seat9, \<lparr>Row = take 7 aliceRow\<rparr>] Map.empty =
     (None, [\<lparr>Row = take 7 aliceRow\<rparr>, seat9, seat10],
      snd (snd (createCSVReport insertionSort_func goodEnv [] ''f'' leeKey
                  [seat10, seat9, \<lparr>Row = take 7 aliceRow\<rparr>] Map.empty))) \<and>
   sorted_wrt reportOrder [\<lparr>Row = take 7 aliceRow\<rparr>, seat9, seat10] \<and>
   snd (snd (createCSVReport insertionSort_func goodEnv [] ''f'' leeKey
               [seat10, seat9, \<lparr>Row = take 7 aliceRow\<rparr>] Map.empty)) ''f'' =
     Some ([] # map Row [\<lparr>Row = take 7 aliceRow\<rparr>, seat9, seat10])"
proof -
  have h1: "sortContract (insertionSort_func :: (GradeRecord \<Rightarrow> GradeRecord \<Rightarrow> bool) \<Rightarrow> _)"
    by (rule insertionSort_contract)
  have h2: "uniformSeats [seat10, seat9, \<lparr>Row = take 7 aliceRow\<rparr>]"
    unfolding uniformSeats_def by code_simp
  have h3: "\<not> createFails goodEnv ''f''"
    by (simp add: goodEnv_def)
  have "fst (createCSVReport insertionSort_func goodEnv [] ''f'' leeKey
               [seat10, seat9, \<lparr>Row = take 7 aliceRow\<rparr>] Map.empty) = None"
    and "fst (snd (createCSVReport insertionSort_func goodEnv [] ''f'' leeKey
               [seat10, seat9, \<lparr>Row = take 7 aliceRow\<rparr>] Map.empty)) =
         [\<lparr>Row = take 7 aliceRow\<rparr>, seat9, seat10]"
    by code_simp+
  then have h4: "createCSVReport insertionSort_func goodEnv [] ''f'' leeKey
     [seat10, seat9, \<lparr>Row = take 7 aliceRow\<rparr>] Map.empty =
     (None, [\<lparr>Row = take 7 aliceRow\<rparr>, seat9, seat10],
      snd (snd (createCSVReport insertionSort_func goodEnv [] ''f'' leeKey
                  [seat10, seat9, \<lparr>Row = take 7 aliceRow\<rparr>] Map.empty)))"
    by (simp add: prod_eq_iff)
  have c: "sorted_wrt reportOrder [\<lparr>Row = take 7 aliceRow\<rparr>, seat9, seat10] \<and>
    snd (snd (createCSVReport insertionSort_func goodEnv [] ''f'' leeKey
               [seat10, seat9, \<lparr>Row = take 7 aliceRow\<rparr>] Map.empty)) ''f'' =
     Some ([] # map Row [\<lparr>Row = take 7 aliceRow\<rparr>, seat9, seat10])"
    using report_rows_in_order[OF h1 h2 h3 h4] by blast
  from h1 h2 h3 h4 c show ?thesis
    by blast
qed

section \<open>File paths of the exports\<close>

lemma splitOn_none: "c \<notin> set s \<Longrightarrow> splitOn c s = [s]"
  by (induction s) auto

lemma splitOn_first: "c \<notin> set a \<Longrightarrow> splitOn c (a @ c # b) = a # splitOn c b"
  by (induction a) auto

lemma Join_output:
  assumes "CHR ''/'' \<notin> set name" and "name \<noteq> []" and "name \<noteq> ''.''" and "name \<noteq> ''..''"
  shows "filepath_Join [outputDir, name] = ''output/'' @ name"
proof -
  have "splitOn (CHR ''/'') (''output'' @ CHR ''/'' # name) = ''output'' # splitOn (CHR ''/'') name"
    by (rule splitOn_first) simp
  then have "splitOn (CHR ''/'') (''output/'' @ name) = [''output'', name]"
    using assms(1) by (simp add: splitOn_none)
  then show ?thesis
    using assms(2-) by (simp add: filepath_Join_def outputDir_def Clean_def)
qed


lemma reportName_length: "11 \<le> length (reportName k)"
  by (simp add: reportName_def nianji_def)

lemma reportPath_plain:
  assumes "CHR ''/'' \<notin> set (reportName k)"
  shows "reportPath k = ''output/'' @ reportName k"
proof -
  have "reportName k \<noteq> []" "reportName k \<noteq> ''.''" "reportName k \<noteq> ''..''"
    using reportName_length[of k] by auto
  with assms show ?thesis unfolding reportPath_def by (rule Join_output)
qed

lemma plainKey_no_slash: "plainKey k \<Longrightarrow> CHR ''/'' \<notin> set (reportName k)"
  by (auto simp: plainKey_def reportName_def nianji_def)

lemma split_at_char:
  "c \<notin> set a \<Longrightarrow> c \<notin> set a' \<Longrightarrow> a @ c # r = a' @ c # r' \<Longrightarrow> a = a' \<and> r = r'"
proof (induction a arbitrary: a')
  case Nil
  then show ?case by (cases a') auto
next
  case (Cons x a)
  then show ?case by (cases a') auto
qed

lemma reportName_inj:
  assumes "CHR ''_'' \<notin> set (TeacherName_rk k) \<union> set (Year_rk k)"
    and "CHR ''_'' \<notin> set (TeacherName_rk k') \<union> set (Year_rk k')"
    and "reportName k = reportName k'"
  shows "TeacherName_rk k = TeacherName_rk k' \<and> Year_rk k = Year_rk k' \<and>
         SubjectName_rk k = SubjectName_rk k'"
proof -
  from assms(3) have
    "TeacherName_rk k @ CHR ''_'' # (nianji @ Year_rk k @ ''_'' @ SubjectName_rk k @ ''.csv'')
     = TeacherName_rk k' @ CHR ''_'' # (nianji @ Year_rk k' @ ''_'' @ SubjectName_rk k' @ ''.csv'')"
    by (simp add: reportName_def)
  from split_at_char[OF _ _ this] assms(1,2) have t: "TeacherName_rk k = TeacherName_rk k'"
    and r: "nianji @ Year_rk k @ ''_'' @ SubjectName_rk k @ ''.csv''
          = nianji @ Year_rk k' @ ''_'' @ SubjectName_rk k' @ ''.csv''"
    by simp_all
  from r have "Year_rk k @ CHR ''_'' # (SubjectName_rk k @ ''.csv'')
             = Year_rk k' @ CHR ''_'' # (SubjectName_rk k' @ ''.csv'')"
    by simp
  from split_at_char[OF _ _ this] assms(1,2)
  have "Year_rk k = Year_rk k'" and "SubjectName_rk k = SubjectName_rk k'"
    by simp_all
  with t show ?thesis by simp
qed

lemma reportPath_inj:
  assumes "plainKey k" and "plainKey k'" and "reportPath k = reportPath k'"
  shows "TeacherName_rk k = TeacherName_rk k' \<and> Year_rk k = Year_rk k' \<and>
         SubjectName_rk k = SubjectName_rk k'"
proof -
  from assms have "reportName k = reportName k'"
    by (simp add: reportPath_plain plainKey_no_slash)
  with assms(1,2) show ?thesis by (intro reportName_inj) (auto simp: plainKey_def)
qed


section \<open>Keys as text\<close>

text \<open>
  The key of the teacher index is one string. It determines the three fields it was made
  of when the subject code and the grade level hold no underscore.
\<close>

lemma indexKey_inj:
  assumes "CHR ''_'' \<notin> set a \<union> set b" and "CHR ''_'' \<notin> set a' \<union> set b'"
    and "indexKey a b c = indexKey a' b' c'"
  shows "a = a' \<and> b = b' \<and> c = c'"
proof -
  from assms(3) have "a @ CHR ''_'' # (b @ ''_'' @ c) = a' @ CHR ''_'' # (b' @ ''_'' @ c')"
    by (simp add: indexKey_def)
  from split_at_char[OF _ _ this] assms(1,2)
  have a: "a = a'" and "b @ CHR ''_'' # c = b' @ CHR ''_'' # c'"
    by simp_all
  from split_at_char[OF _ _ this(2)] assms(1,2) a show ?thesis
    by simp
qed

section \<open>Looking a teacher up\<close>

text \<open>
  C2, as the claim states it, fails: the key of the index is the text of the three fields
  joined by underscores, and two different triples can give one text. With a teacher row
  of subject code \<open>A_B\<close>, grade level \<open>C\<close> and class \<open>D\<close>, followed by a row of subject
  code \<open>A\<close>, grade level \<open>B_C\<close> and class \<open>D\<close>, looking up the key of the first triple
  gives the second row, which is no row with that triple.
\<close>

theorem underscore_keys_collide:
  "readTeacherCSV underscoreRows =
     [\<lparr>SubjectCode = ''A_B'', SubjectName = ''n'', Year = ''C'', Class = ''D'', Group = '''',
        TeacherName = ''T1'', Email = ''e1''\<rparr>,
      \<lparr>SubjectCode = ''A'', SubjectName = ''n'', Year = ''B_C'', Class = ''D'', Group = '''',
        TeacherName = ''T2'', Email = ''e2''\<rparr>] \<and>
   map_of (buildTeacherMap (readTeacherCSV underscoreRows)) (indexKey ''A_B'' ''C'' ''D'') =
     Some \<lparr>SubjectCode = ''A'', SubjectName = ''n'', Year = ''B_C'', Class = ''D'', Group = '''',
            TeacherName = ''T2'', Email = ''e2''\<rparr>"
  by code_simp

text \<open>
  C2, amended. The teacher rows are the records after the header that have at least 7
  columns. The key of a row is the text \<open>subjectCode_gradeLevel_class\<close> of its trimmed
  fields; the group is no part of it. The index holds one teacher per key, and looking a
  key up gives the seven trimmed fields of the last teacher row, in input order, whose
  key is that text, and nothing when no teacher row has it. When no trimmed subject code
  and no trimmed grade level holds an underscore, this is the last teacher row with the
  subject code, grade level and class looked up.
\<close>

theorem teacher_index_last_row_wins:
  assumes "rows = filter (\<lambda>r. 7 \<le> length r) (drop 1 records)"
    and "index = buildTeacherMap (readTeacherCSV records)"
  shows "distinct (map fst index) \<and>
         map_of index k =
           (case filter (\<lambda>r. TrimSpace (r ! 0) @ ''_'' @ TrimSpace (r ! 2) @ ''_'' @
                               TrimSpace (r ! 3) = k) rows of
              [] \<Rightarrow> None
            | r # rs \<Rightarrow>
                Some \<lparr>SubjectCode = TrimSpace (last (r # rs) ! 0),
                       SubjectName = TrimSpace (last (r # rs) ! 1),
                       Year = TrimSpace (last (r # rs) ! 2),
                       Class = TrimSpace (last (r # rs) ! 3),
                       Group = TrimSpace (last (r # rs) ! 4),
                       TeacherName = TrimSpace (last (r # rs) ! 5),
                       Email = TrimSpace (last (r # rs) ! 6)\<rparr>) \<and>
         ((\<forall>r\<in>set rows. CHR ''_'' \<notin> set (TrimSpace (r ! 0)) \<union> set (TrimSpace (r ! 2))) \<and>
          CHR ''_'' \<notin> set a \<union> set b \<longrightarrow>
          map_of index (a @ ''_'' @ b @ ''_'' @ c) =
            (case filter (\<lambda>r. TrimSpace (r ! 0) = a \<and> TrimSpace (r ! 2) = b \<and>
                                TrimSpace (r ! 3) = c) rows of
               [] \<Rightarrow> None
             | r # rs \<Rightarrow>
                 Some \<lparr>SubjectCode = TrimSpace (last (r # rs) ! 0),
                        SubjectName = TrimSpace (last (r # rs) ! 1),
                        Year = TrimSpace (last (r # rs) ! 2),
                        Class = TrimSpace (last (r # rs) ! 3),
                        Group = TrimSpace (last (r # rs) ! 4),
                        TeacherName = TrimSpace (last (r # rs) ! 5),
                        Email = TrimSpace (last (r # rs) ! 6)\<rparr>))"
proof -
  have tk: "teacherKey (teacherOfRecord r) =
     TrimSpace (r ! 0) @ ''_'' @ TrimSpace (r ! 2) @ ''_'' @ TrimSpace (r ! 3)" for r
    by (simp add: teacherKey_def teacherOfRecord_def indexKey_def)
  have fm: "filter (\<lambda>t. teacherKey t = k) (map teacherOfRecord rows)
        = map teacherOfRecord (filter (\<lambda>r. teacherKey (teacherOfRecord r) = k) rows)" for k
    by (simp add: filter_map comp_def)
  have look: "map_of index k =
           (case filter (\<lambda>r. TrimSpace (r ! 0) @ ''_'' @ TrimSpace (r ! 2) @ ''_'' @
                               TrimSpace (r ! 3) = k) rows of
              [] \<Rightarrow> None
            | r # rs \<Rightarrow>
                Some \<lparr>SubjectCode = TrimSpace (last (r # rs) ! 0),
                       SubjectName = TrimSpace (last (r # rs) ! 1),
                       Year = TrimSpace (last (r # rs) ! 2),
                       Class = TrimSpace (last (r # rs) ! 3),
                       Group = TrimSpace (last (r # rs) ! 4),
                       TeacherName = TrimSpace (last (r # rs) ! 5),
                       Email = TrimSpace (last (r # rs) ! 6)\<rparr>)" for k
    unfolding assms(2) readTeacherCSV_eq assms(1)[symmetric] buildTeacherMap_lookup fm tk
    by (auto simp: last_map teacherOfRecord_def split: list.splits)
  have d: "distinct (map fst index)"
    unfolding assms(2) buildTeacherMap_def by (rule buildLoop_distinct) simp
  have tri: "map_of index (a @ ''_'' @ b @ ''_'' @ c) =
            (case filter (\<lambda>r. TrimSpace (r ! 0) = a \<and> TrimSpace (r ! 2) = b \<and>
                                TrimSpace (r ! 3) = c) rows of
               [] \<Rightarrow> None
             | r # rs \<Rightarrow>
                 Some \<lparr>SubjectCode = TrimSpace (last (r # rs) ! 0),
                        SubjectName = TrimSpace (last (r # rs) ! 1),
                        Year = TrimSpace (last (r # rs) ! 2),
                        Class = TrimSpace (last (r # rs) ! 3),
                        Group = TrimSpace (last (r # rs) ! 4),
                        TeacherName = TrimSpace (last (r # rs) ! 5),
                        Email = TrimSpace (last (r # rs) ! 6)\<rparr>)"
    if u: "\<forall>r\<in>set rows. CHR ''_'' \<notin> set (TrimSpace (r ! 0)) \<union> set (TrimSpace (r ! 2))"
      and ab: "CHR ''_'' \<notin> set a \<union> set b"
  proof -
    have "filter (\<lambda>r. TrimSpace (r ! 0) @ ''_'' @ TrimSpace (r ! 2) @ ''_'' @
                               TrimSpace (r ! 3) = a @ ''_'' @ b @ ''_'' @ c) rows
        = filter (\<lambda>r. TrimSpace (r ! 0) = a \<and> TrimSpace (r ! 2) = b \<and>
                                TrimSpace (r ! 3) = c) rows"
    proof (rule filter_cong[OF refl])
      fix r assume "r \<in> set rows"
      with u have ur: "CHR ''_'' \<notin> set (TrimSpace (r ! 0)) \<union> set (TrimSpace (r ! 2))" by blast
      show "(TrimSpace (r ! 0) @ ''_'' @ TrimSpace (r ! 2) @ ''_'' @ TrimSpace (r ! 3)
              = a @ ''_'' @ b @ ''_'' @ c) =
            (TrimSpace (r ! 0) = a \<and> TrimSpace (r ! 2) = b \<and> TrimSpace (r ! 3) = c)"
        using indexKey_inj[OF ur ab, of "TrimSpace (r ! 3)" c]
        by (auto simp: indexKey_def)
    qed
    then show ?thesis unfolding look by simp
  qed
  from d look tri show ?thesis by blast
qed

theorem teacher_index_last_row_wins_witness:
  "filter (\<lambda>r. 7 \<le> length r) (drop 1 [replicate 7 ''h'', spacedKim, spacedLee])
     = [spacedKim, spacedLee] \<and>
   CHR ''_'' \<notin> set (TrimSpace (spacedKim ! 0)) \<union> set (TrimSpace (spacedKim ! 2)) \<and>
   CHR ''_'' \<notin> set (TrimSpace (spacedLee ! 0)) \<union> set (TrimSpace (spacedLee ! 2)) \<and>
   CHR ''_'' \<notin> set ''MATH'' \<union> set ''7'' \<and>
   map_of (buildTeacherMap (readTeacherCSV [replicate 7 ''h'', spacedKim, spacedLee]))
     (''MATH'' @ ''_'' @ ''7'' @ ''_'' @ ''1'') =
     Some \<lparr>SubjectCode = ''MATH'', SubjectName = ''Mathematics'', Year = ''7'', Class = ''1'',
            Group = ''A'', TeacherName = ''Mr.Lee'', Email = ''lee@x.org''\<rparr> \<and>
   map_of (buildTeacherMap (readTeacherCSV [replicate 7 ''h'', spacedKim, spacedLee]))
     ''MATH_7_2'' = None"
proof -
  have h1: "[spacedKim, spacedLee] =
     filter (\<lambda>r. 7 \<le> length r) (drop 1 [replicate 7 ''h'', spacedKim, spacedLee])"
    by code_simp
  have u1: "CHR ''_'' \<notin> set (TrimSpace (spacedKim ! 0)) \<union> set (TrimSpace (spacedKim ! 2))"
    and u2: "CHR ''_'' \<notin> set (TrimSpace (spacedLee ! 0)) \<union> set (TrimSpace (spacedLee ! 2))"
    and u3: "CHR ''_'' \<notin> set ''MATH'' \<union> set ''7''"
    by code_simp+
  from u1 u2 have u: "\<forall>r\<in>set [spacedKim, spacedLee].
      CHR ''_'' \<notin> set (TrimSpace (r ! 0)) \<union> set (TrimSpace (r ! 2))"
    by simp
  note t = teacher_index_last_row_wins[OF h1 refl]
  from t u u3 have a: "map_of (buildTeacherMap (readTeacherCSV
        [replicate 7 ''h'', spacedKim, spacedLee])) (''MATH'' @ ''_'' @ ''7'' @ ''_'' @ ''1'') =
            (case filter (\<lambda>r. TrimSpace (r ! 0) = ''MATH'' \<and> TrimSpace (r ! 2) = ''7'' \<and>
                                TrimSpace (r ! 3) = ''1'') [spacedKim, spacedLee] of
               [] \<Rightarrow> None
             | r # rs \<Rightarrow>
                 Some \<lparr>SubjectCode = TrimSpace (last (r # rs) ! 0),
                        SubjectName = TrimSpace (last (r # rs) ! 1),
                        Year = TrimSpace (last (r # rs) ! 2),
                        Class = TrimSpace (last (r # rs) ! 3),
                        Group = TrimSpace (last (r # rs) ! 4),
                        TeacherName = TrimSpace (last (r # rs) ! 5),
                        Email = TrimSpace (last (r # rs) ! 6)\<rparr>)"
    by blast
  have b: "(case filter (\<lambda>r. TrimSpace (r ! 0) = ''MATH'' \<and> TrimSpace (r ! 2) = ''7'' \<and>
                                TrimSpace (r ! 3) = ''1'') [spacedKim, spacedLee] of
               [] \<Rightarrow> None
             | r # rs \<Rightarrow>
                 Some \<lparr>SubjectCode = TrimSpace (last (r # rs) ! 0),
                        SubjectName = TrimSpace (last (r # rs) ! 1),
                        Year = TrimSpace (last (r # rs) ! 2),
                        Class = TrimSpace (last (r # rs) ! 3),
                        Group = TrimSpace (last (r # rs) ! 4),
                        TeacherName = TrimSpace (last (r # rs) ! 5),
                        Email = TrimSpace (last (r # rs) ! 6)\<rparr>) =
     Some \<lparr>SubjectCode = ''MATH'', SubjectName = ''Mathematics'', Year = ''7'', Class = ''1'',
            Group = ''A'', TeacherName = ''Mr.Lee'', Email = ''lee@x.org''\<rparr>"
    by code_simp
  from a b have c1: "map_of (buildTeacherMap (readTeacherCSV
        [replicate 7 ''h'', spacedKim, spacedLee])) (''MATH'' @ ''_'' @ ''7'' @ ''_'' @ ''1'') =
     Some \<lparr>SubjectCode = ''MATH'', SubjectName = ''Mathematics'', Year = ''7'', Class = ''1'',
            Group = ''A'', TeacherName = ''Mr.Lee'', Email = ''lee@x.org''\<rparr>"
    by (rule trans)
  have c2: "map_of (buildTeacherMap (readTeacherCSV
        [replicate 7 ''h'', spacedKim, spacedLee])) ''MATH_7_2'' = None"
    by code_simp
  from h1[symmetric] u1 u2 u3 c1 c2 show ?thesis
    by blast
qed

section \<open>The loop that writes the reports\<close>

lemma reportsLoop_Cons:
  "reportsLoop srt env hdr ((key, grades) # entries) st =
     reportsLoop srt env hdr entries
       (if createFails env (reportPath key) then
          st\<lparr>reportData := AList.update key grades (reportData st),
              logged := logged st @ [ReportFailed (reportPath key) (CreateError (reportPath key))]\<rparr>
        else
          st\<lparr>reportFiles := AList.update key (reportPath key) (reportFiles st),
              reportData := AList.update key (srt lessGrades grades) (reportData st),
              files := (files st)(reportPath key \<mapsto> hdr # map Row (srt lessGrades grades))\<rparr>)"
  by (simp add: createCSVReport_def Let_def)

lemma reportsLoop_reportFiles:
  "map_of (reportFiles (reportsLoop srt env hdr entries st)) k =
     (if k \<in> fst ` set entries \<and> \<not> createFails env (reportPath k) then Some (reportPath k)
      else map_of (reportFiles st) k)"
proof (induction entries arbitrary: st)
  case Nil
  then show ?case by simp
next
  case (Cons e entries)
  obtain key grades where e: "e = (key, grades)" by (cases e)
  show ?case
    unfolding e reportsLoop_Cons Cons.IH
    by (auto simp: update_conv')
qed

lemma reportsLoop_files:
  "files (reportsLoop srt env hdr entries st) p =
     (case filter (\<lambda>(k, gs). reportPath k = p \<and> \<not> createFails env p) entries of
        [] \<Rightarrow> files st p
      | e # es \<Rightarrow> Some (hdr # map Row (srt lessGrades (snd (last (e # es))))))"
proof (induction entries arbitrary: st)
  case Nil
  then show ?case by simp
next
  case (Cons e entries)
  obtain key grades where e: "e = (key, grades)" by (cases e)
  show ?case
    unfolding e reportsLoop_Cons Cons.IH
    by (auto split: list.splits)
qed

lemma reportsLoop_logged:
  "logged (reportsLoop srt env hdr entries st) =
     logged st @ map (\<lambda>(k, gs). ReportFailed (reportPath k) (CreateError (reportPath k)))
                   (filter (\<lambda>(k, gs). createFails env (reportPath k)) entries)"
proof (induction entries arbitrary: st)
  case Nil
  then show ?case by simp
next
  case (Cons e entries)
  obtain key grades where e: "e = (key, grades)" by (cases e)
  show ?case
    unfolding e reportsLoop_Cons Cons.IH by auto
qed

text \<open>After the loop the bucket of every report that was written is sorted in the map itself.\<close>

lemma reportsLoop_reportData:
  "map_of (reportData (reportsLoop srt env hdr entries st)) k =
     (case filter (\<lambda>(k', gs). k' = k) entries of
        [] \<Rightarrow> map_of (reportData st) k
      | e # es \<Rightarrow> Some (if createFails env (reportPath k) then snd (last (e # es))
                        else srt lessGrades (snd (last (e # es)))))"
proof (induction entries arbitrary: st)
  case Nil
  then show ?case by simp
next
  case (Cons e entries)
  obtain key grades where e: "e = (key, grades)" by (cases e)
  show ?case
    unfolding e reportsLoop_Cons Cons.IH
    by (auto simp: update_conv' split: list.splits)
qed

lemma gen_reportFiles:
  "map_of (reportFiles (generateCSVReports srt env hdr rd fs lg)) k =
     (if \<not> mkdirFails env \<and> k \<in> fst ` set rd \<and> \<not> createFails env (reportPath k)
      then Some (reportPath k) else None)"
  by (simp add: generateCSVReports_def reportsLoop_reportFiles rangeOrder_set)

lemma gen_reportFiles_empty:
  "reportFiles (generateCSVReports srt env hdr rd fs lg) = [] \<longleftrightarrow>
     mkdirFails env \<or> (\<forall>k\<in>fst ` set rd. createFails env (reportPath k))"
proof -
  have "reportFiles (generateCSVReports srt env hdr rd fs lg) = [] \<longleftrightarrow>
        map_of (reportFiles (generateCSVReports srt env hdr rd fs lg)) = Map.empty"
    by (simp add: map_of_eq_empty_iff)
  also have "\<dots> \<longleftrightarrow> (\<forall>k. map_of (reportFiles (generateCSVReports srt env hdr rd fs lg)) k = None)"
    by (auto simp: fun_eq_iff)
  also have "\<dots> \<longleftrightarrow> mkdirFails env \<or> (\<forall>k\<in>fst ` set rd. createFails env (reportPath k))"
    unfolding gen_reportFiles by auto
  finally show ?thesis .
qed

lemma gen_files:
  "files (generateCSVReports srt env hdr rd fs lg) p =
     (if mkdirFails env then fs p
      else case filter (\<lambda>(k, gs). reportPath k = p \<and> \<not> createFails env p)
                  (rangeOrder (seedReports env) rd) of
             [] \<Rightarrow> fs p
           | e # es \<Rightarrow> Some (hdr # map Row (srt lessGrades (snd (last (e # es))))))"
  by (simp add: generateCSVReports_def reportsLoop_files split: list.splits)

lemma gen_files_frame:
  assumes "\<forall>k\<in>fst ` set rd. reportPath k \<noteq> p"
  shows "files (generateCSVReports srt env hdr rd fs lg) p = fs p"
proof -
  have "filter (\<lambda>(k, gs). reportPath k = p \<and> \<not> createFails env p)
          (rangeOrder (seedReports env) rd) = []"
    using assms by (auto simp: filter_empty_conv rangeOrder_set)
  then show ?thesis by (simp add: gen_files)
qed


lemma gen_logged_failed:
  assumes "\<not> mkdirFails env" and "k \<in> fst ` set rd" and "createFails env (reportPath k)"
  shows "ReportFailed (reportPath k) (CreateError (reportPath k))
           \<in> set (logged (generateCSVReports srt env hdr rd fs lg))"
proof -
  from assms(2) obtain gs where "(k, gs) \<in> set (rangeOrder (seedReports env) rd)"
    by (auto simp: rangeOrder_set)
  with assms(3) have "(k, gs) \<in> set (filter (\<lambda>(k, gs). createFails env (reportPath k))
                                   (rangeOrder (seedReports env) rd))"
    by simp
  then have "(\<lambda>(k, gs). ReportFailed (reportPath k) (CreateError (reportPath k))) (k, gs)
      \<in> (\<lambda>(k, gs). ReportFailed (reportPath k) (CreateError (reportPath k))) `
         set (filter (\<lambda>(k, gs). createFails env (reportPath k)) (rangeOrder (seedReports env) rd))"
    by (rule imageI)
  with assms(1) show ?thesis
    by (simp add: generateCSVReports_def reportsLoop_logged)
qed

lemma filter_key_unique:
  "distinct (map fst xs) \<Longrightarrow> (k, v) \<in> set xs \<Longrightarrow> filter (\<lambda>(k', v'). k' = k) xs = [(k, v)]"
proof (induction xs)
  case Nil
  then show ?case by simp
next
  case (Cons x xs)
  obtain k' v' where x: "x = (k', v')" by (cases x)
  show ?case
  proof (cases "k' = k")
    case True
    with Cons.prems x have "v' = v" by (auto simp: image_iff)
    moreover from True Cons.prems x have "filter (\<lambda>(k', v'). k' = k) xs = []"
      by (auto simp: filter_empty_conv image_iff)
    ultimately show ?thesis using True x by simp
  next
    case False
    with Cons x show ?thesis by auto
  qed
qed

lemma filter_path_unique:
  assumes "distinct (map fst xs)" and "(k, v) \<in> set xs"
    and "\<forall>k'\<in>fst ` set xs. reportPath k' = reportPath k \<longrightarrow> k' = k"
  shows "filter (\<lambda>(k', v'). reportPath k' = reportPath k \<and> ok) xs = (if ok then [(k, v)] else [])"
proof -
  have "filter (\<lambda>(k', v'). reportPath k' = reportPath k \<and> ok) xs =
        filter (\<lambda>(k', v'). k' = k \<and> ok) xs"
    using assms(3) by (intro filter_cong) (auto simp: image_iff)
  also have "\<dots> = (if ok then filter (\<lambda>(k', v'). k' = k) xs else [])"
    by (cases ok) simp_all
  finally show ?thesis using filter_key_unique[OF assms(1,2)] by simp
qed

lemma gen_files_own:
  assumes "distinct (map fst rd)" and "\<not> mkdirFails env" and "(k, gs) \<in> set rd"
    and "\<forall>k'\<in>fst ` set rd. reportPath k' = reportPath k \<longrightarrow> k' = k"
  shows "files (generateCSVReports srt env hdr rd fs lg) (reportPath k) =
           (if createFails env (reportPath k) then fs (reportPath k)
            else Some (hdr # map Row (srt lessGrades gs)))"
proof -
  let ?xs = "rangeOrder (seedReports env) rd"
  have "filter (\<lambda>(k', v'). reportPath k' = reportPath k \<and> \<not> createFails env (reportPath k)) ?xs
        = (if \<not> createFails env (reportPath k) then [(k, gs)] else [])"
    using assms by (intro filter_path_unique) (simp_all add: rangeOrder_distinct_keys rangeOrder_set)
  with assms(2) show ?thesis by (simp add: gen_files)
qed

lemma gen_files_any_order:
  assumes "distinct (map fst rd)" and "inj_on reportPath (fst ` set rd)"
  shows "files (generateCSVReports srt env hdr rd fs lg) p =
           (if mkdirFails env \<or> createFails env p then fs p
            else case filter (\<lambda>(k, gs). reportPath k = p) rd of
                   [] \<Rightarrow> fs p
                 | e # es \<Rightarrow> Some (hdr # map Row (srt lessGrades (snd e))))"
proof (cases "\<exists>k\<in>fst ` set rd. reportPath k = p")
  case False
  then have "filter (\<lambda>(k, gs). reportPath k = p) rd = []"
    by (auto simp: filter_empty_conv image_iff)
  moreover from False have "files (generateCSVReports srt env hdr rd fs lg) p = fs p"
    by (intro gen_files_frame) auto
  ultimately show ?thesis by simp
next
  case True
  then obtain k gs where k: "(k, gs) \<in> set rd" and p: "p = reportPath k" by auto
  have u: "\<forall>k'\<in>fst ` set rd. reportPath k' = reportPath k \<longrightarrow> k' = k"
    using assms(2) k by (auto simp: inj_on_def image_iff)
  have "filter (\<lambda>(k', gs). reportPath k' = reportPath k \<and> True) rd = [(k, gs)]"
    using filter_path_unique[OF assms(1) k u, of True] by simp
  then have f: "filter (\<lambda>(k', gs). reportPath k' = p) rd = [(k, gs)]"
    by (simp add: p)
  show ?thesis
  proof (cases "mkdirFails env")
    case True
    then show ?thesis by (simp add: gen_files)
  next
    case False
    from gen_files_own[OF assms(1) False k u] f show ?thesis by (simp add: p False)
  qed
qed

section \<open>One file per report key\<close>

text \<open>
  C6, as the claim states it, fails: the subject code is part of the report key and no part
  of the file name. In the run with two subject codes of one name, the two report keys
  differ and have the same path.
\<close>

theorem two_keys_one_path:
  "map fst (buckets (main insertionSort_func goodEnv twoCodesInputs Map.empty)) =
     [mathKey1, mathKey2] \<and>
   mathKey1 \<noteq> mathKey2 \<and>
   reportPath mathKey1 = reportPath mathKey2"
  by code_simp

text \<open>
  C6, amended. For every report key the loop makes one write, to the path of the key, and
  records that path for the key when the write succeeds. The path is a function of teacher
  name, grade level and subject name alone: two keys that agree on the three have the
  same path, whatever their subject codes. For plain keys (no path separator in the three
  fields, no underscore in teacher name and grade level) the path is
  \<open>output/teacher_<nianji>grade_subject.csv\<close> and two keys with the same path agree on
  the three fields. When the keys of a run have different paths, the file of each key
  holds the header and the sorted rows of its own bucket.
\<close>

theorem report_path_from_three_fields:
  "(TeacherName_rk k = TeacherName_rk k' \<and> Year_rk k = Year_rk k' \<and>
    SubjectName_rk k = SubjectName_rk k' \<longrightarrow> reportPath k = reportPath k') \<and>
   (plainKey k \<longrightarrow>
      reportPath k =
        ''output/'' @ TeacherName_rk k @ ''_'' @ nianji @ Year_rk k @ ''_'' @
        SubjectName_rk k @ ''.csv'') \<and>
   (plainKey k \<and> plainKey k' \<and> reportPath k = reportPath k' \<longrightarrow>
      TeacherName_rk k = TeacherName_rk k' \<and> Year_rk k = Year_rk k' \<and>
      SubjectName_rk k = SubjectName_rk k') \<and>
   map_of (reportFiles (generateCSVReports srt env hdr rd fs lg)) k =
     (if \<not> mkdirFails env \<and> k \<in> fst ` set rd \<and> \<not> createFails env (reportPath k)
      then Some (reportPath k) else None) \<and>
   (distinct (map fst rd) \<and> inj_on reportPath (fst ` set rd) \<and> (k, gs) \<in> set rd \<and>
    \<not> mkdirFails env \<and> \<not> createFails env (reportPath k) \<longrightarrow>
      files (generateCSVReports srt env hdr rd fs lg) (reportPath k) =
        Some (hdr # map Row (srt lessGrades gs)))"
proof -
  have a: "TeacherName_rk k = TeacherName_rk k' \<and> Year_rk k = Year_rk k' \<and>
    SubjectName_rk k = SubjectName_rk k' \<longrightarrow> reportPath k = reportPath k'"
    by (simp add: reportPath_def reportName_def)
  have b: "plainKey k \<longrightarrow>
      reportPath k =
        ''output/'' @ TeacherName_rk k @ ''_'' @ nianji @ Year_rk k @ ''_'' @
        SubjectName_rk k @ ''.csv''"
    using reportPath_plain[OF plainKey_no_slash, of k] by (simp add: reportName_def)
  have c: "plainKey k \<and> plainKey k' \<and> reportPath k = reportPath k' \<longrightarrow>
      TeacherName_rk k = TeacherName_rk k' \<and> Year_rk k = Year_rk k' \<and>
      SubjectName_rk k = SubjectName_rk k'"
    using reportPath_inj by blast
  have d: "distinct (map fst rd) \<and> inj_on reportPath (fst ` set rd) \<and> (k, gs) \<in> set rd \<and>
    \<not> mkdirFails env \<and> \<not> createFails env (reportPath k) \<longrightarrow>
      files (generateCSVReports srt env hdr rd fs lg) (reportPath k) =
        Some (hdr # map Row (srt lessGrades gs))"
  proof (intro impI, elim conjE)
    assume h: "distinct (map fst rd)" "inj_on reportPath (fst ` set rd)" "(k, gs) \<in> set rd"
      "\<not> mkdirFails env" "\<not> createFails env (reportPath k)"
    have u: "\<forall>k'\<in>fst ` set rd. reportPath k' = reportPath k \<longrightarrow> k' = k"
      using h(2,3) by (auto simp: inj_on_def image_iff)
    from gen_files_own[OF h(1,4,3) u] h(5)
    show "files (generateCSVReports srt env hdr rd fs lg) (reportPath k) =
        Some (hdr # map Row (srt lessGrades gs))"
      by simp
  qed
  from a b c d gen_reportFiles show ?thesis by blast
qed

theorem report_path_from_three_fields_witness:
  "plainKey leeKey \<and> plainKey kimKey \<and>
   reportPath leeKey =
     ''output/'' @ TeacherName_rk leeKey @ ''_'' @ nianji @ Year_rk leeKey @ ''_'' @
     SubjectName_rk leeKey @ ''.csv'' \<and>
   reportPath leeKey \<noteq> reportPath kimKey \<and>
   TeacherName_rk mathKey1 = TeacherName_rk mathKey2 \<and> Year_rk mathKey1 = Year_rk mathKey2 \<and>
   SubjectName_rk mathKey1 = SubjectName_rk mathKey2 \<and>
   reportPath mathKey1 = reportPath mathKey2"
proof -
  have h1: "plainKey leeKey" and h2: "plainKey kimKey"
    unfolding plainKey_def by code_simp+
  have h3: "TeacherName_rk mathKey1 = TeacherName_rk mathKey2 \<and>
    Year_rk mathKey1 = Year_rk mathKey2 \<and> SubjectName_rk mathKey1 = SubjectName_rk mathKey2"
    by code_simp
  have n: "TeacherName_rk leeKey \<noteq> TeacherName_rk kimKey"
    by code_simp
  have c1: "reportPath leeKey =
     ''output/'' @ TeacherName_rk leeKey @ ''_'' @ nianji @ Year_rk leeKey @ ''_'' @
     SubjectName_rk leeKey @ ''.csv''"
    using report_path_from_three_fields[of leeKey leeKey] h1 by blast
  have c2: "reportPath leeKey \<noteq> reportPath kimKey"
    using report_path_from_three_fields[of leeKey kimKey] h1 h2 n by blast
  have c3: "reportPath mathKey1 = reportPath mathKey2"
    using report_path_from_three_fields[of mathKey1 mathKey2] h3 by blast
  from h1 h2 h3 c1 c2 c3 show ?thesis
    by blast
qed

section \<open>Properties of the run\<close>

lemma mailLoop_log: "snd (mailLoop settings teachers entries sent lg) = lg"
  by (induction entries arbitrary: sent) (auto simp: sendEmail_def Let_def)

lemma generateErrorCSV_eq:
  "generateErrorCSV env hdr errs fs =
     (if mkdirFails env then Inl MkdirError
      else if createFails env errorPath then Inl (CreateError errorPath)
      else Inr (fs(errorPath \<mapsto> hdr # map Row errs)))"
  by (simp add: generateErrorCSV_def errorPath_def Let_def)

lemma main_fields:
  assumes "gradeFile inp = Inr grecs" and "teacherFile inp = Inr trecs"
    and "readGradeCSV grecs = (grades, hdr, lg1)"
    and "matchStudentsToTeachers grades (buildTeacherMap (readTeacherCSV trecs)) = (rd, errs)"
    and "st = generateCSVReports srt env hdr rd (afterErrorExport env hdr errs fs)
                (lg1 @ errorExportLog env errs)"
  shows "buckets (main srt env inp fs) = rd"
    and "unmatched (main srt env inp fs) = errs"
    and "written (main srt env inp fs) = reportFiles st"
    and "outputFiles (main srt env inp fs) = files st"
    and "halted (main srt env inp fs) = (if reportFiles st = [] then Some NoReports else None)"
    and "\<exists>more. runLog (main srt env inp fs) = logged st @ more"
proof -
  have step: "(if 0 < length errs
         then case generateErrorCSV env hdr errs fs of
                Inl err \<Rightarrow> (fs, lg1 @ [ErrorCSVFailed err])
              | Inr fs' \<Rightarrow> (fs', lg1)
         else (fs, lg1)) = (afterErrorExport env hdr errs fs, lg1 @ errorExportLog env errs)"
    by (simp add: generateErrorCSV_eq afterErrorExport_def errorExportLog_def)
  have m: "main srt env inp fs =
     (let run = \<lparr>halted = None, outputFiles = files st, runLog = logged st, mails = [],
                 buckets = rd, unmatched = errs, written = reportFiles st, plan = []\<rparr>
      in if length (reportFiles st) = 0 then run\<lparr>halted := Some NoReports\<rparr>
         else case settingFile inp of
                Inl err \<Rightarrow> run\<lparr>runLog := logged st @ [SettingsFailed err]\<rparr>
              | Inr settings \<Rightarrow>
                  if ShouldSendEmail settings = ''true'' then
                    let teacherFiles =
                          groupReportsByTeacher (seedFiles env) (reportFiles st)
                            (reportData st) (readTeacherCSV trecs);
                        (sent, lg3) =
                          mailLoop settings (readTeacherCSV trecs)
                            (rangeOrder (seedMail env) teacherFiles) [] (logged st)
                    in run\<lparr>runLog := lg3, mails := sent, plan := teacherFiles\<rparr>
                  else run)"
    unfolding main_def assms(1,2) sum.case assms(3) prod.case Let_def assms(4) step
    by (simp only: assms(5)[symmetric])
  show "buckets (main srt env inp fs) = rd"
    unfolding m by (simp add: Let_def split: sum.splits prod.splits)
  show "unmatched (main srt env inp fs) = errs"
    unfolding m by (simp add: Let_def split: sum.splits prod.splits)
  show "written (main srt env inp fs) = reportFiles st"
    unfolding m by (simp add: Let_def split: sum.splits prod.splits)
  show "outputFiles (main srt env inp fs) = files st"
    unfolding m by (simp add: Let_def split: sum.splits prod.splits)
  show "halted (main srt env inp fs) = (if reportFiles st = [] then Some NoReports else None)"
    unfolding m by (simp add: Let_def split: sum.splits prod.splits)
  show "\<exists>more. runLog (main srt env inp fs) = logged st @ more"
    unfolding m using mailLoop_log
    by (auto simp add: Let_def split: sum.splits prod.splits) (metis append_Nil2 snd_conv)
qed

section \<open>Unmatched rows\<close>


text \<open>
  A row can also have a teacher under its key although no teacher has its subject code,
  grade level and class: the grade row of subject code \<open>A_B\<close> and grade level \<open>C\<close> is
  matched to the teacher of subject code \<open>A\<close> and grade level \<open>B_C\<close>.
\<close>

lemma underscore_row_matched_by_text:
  "matchStudentsToTeachers [\<lparr>Row = [''A_B'', ''n'', ''S1'', ''C'', ''D'', ''1'', ''Ann'']\<rparr>]
     (buildTeacherMap (readTeacherCSV
        [replicate 7 ''h'', [''A'', ''n'', ''B_C'', ''D'', '''', ''T2'', ''e2'']])) =
     ([(\<lparr>TeacherName_rk = ''T2'', Year_rk = ''C'', SubjectCode_rk = ''A_B'',
          SubjectName_rk = ''n''\<rparr>,
        [\<lparr>Row = [''A_B'', ''n'', ''S1'', ''C'', ''D'', ''1'', ''Ann'']\<rparr>])], [])"
  by code_simp



section \<open>When the run halts\<close>

text \<open>
  C7, as the claim states it, fails: in an environment where no file can be created, the
  sample run has one report bucket and still halts, because no report was written.
\<close>

theorem halts_although_a_bucket_exists:
  "buckets (main insertionSort_func fullDiskEnv sampleInputs Map.empty) =
     [(leeKey, [\<lparr>Row = aliceRow\<rparr>])] \<and>
   unmatched (main insertionSort_func fullDiskEnv sampleInputs Map.empty) =
     [\<lparr>Row = bobRow @ replicate 7 []\<rparr>] \<and>
   halted (main insertionSort_func fullDiskEnv sampleInputs Map.empty) = Some NoReports"
  by code_simp

text \<open>
  C7, amended. A run that read both files halts, after matching, if and only if no report
  file was written: that is when the output directory cannot be made or the write of
  every bucket fails, so always when there is no bucket, and, in an environment where no
  write fails, only when there is no bucket. Unmatched rows play no part in it: a grade
  row without a teacher never halts the run. A report whose file cannot be created is
  logged and left out of the files written, and every other report is still written.
\<close>

theorem fatal_iff_no_report_written:
  assumes "gradeFile inp = Inr gradeRecords" and "teacherFile inp = Inr teacherRecords"
    and "run = main srt env inp fs"
  shows "(halted run = Some NoReports) = (written run = []) \<and>
         (halted run = None) = (written run \<noteq> []) \<and>
         (written run = []) =
           (mkdirFails env \<or> (\<forall>k\<in>fst ` set (buckets run). createFails env (reportPath k))) \<and>
         (buckets run = [] \<longrightarrow> halted run = Some NoReports) \<and>
         (\<not> mkdirFails env \<and> (\<forall>p. \<not> createFails env p) \<longrightarrow>
            (halted run = Some NoReports) = (buckets run = [])) \<and>
         (\<forall>k\<in>fst ` set (buckets run). \<not> mkdirFails env \<longrightarrow>
            (if createFails env (reportPath k)
             then map_of (written run) k = None \<and>
                  ReportFailed (reportPath k) (CreateError (reportPath k)) \<in> set (runLog run)
             else map_of (written run) k = Some (reportPath k)))"
proof -
  obtain grades hdr lg1 where g: "readGradeCSV gradeRecords = (grades, hdr, lg1)"
    by (metis prod_cases3)
  obtain rd errs where
    m: "matchStudentsToTeachers grades (buildTeacherMap (readTeacherCSV teacherRecords)) = (rd, errs)"
    by (metis surj_pair)
  define st where "st = generateCSVReports srt env hdr rd (afterErrorExport env hdr errs fs)
                (lg1 @ errorExportLog env errs)"
  note f = main_fields[OF assms(1,2) g m st_def, folded assms(3)]
  have w: "(written run = []) =
           (mkdirFails env \<or> (\<forall>k\<in>fst ` set (buckets run). createFails env (reportPath k)))"
    unfolding f(1,3) st_def by (rule gen_reportFiles_empty)
  have h: "halted run = (if written run = [] then Some NoReports else None)"
    by (simp add: f)
  have e: "buckets run = [] \<longrightarrow> written run = []"
    unfolding w by simp
  have p: "\<forall>k\<in>fst ` set (buckets run). \<not> mkdirFails env \<longrightarrow>
            (if createFails env (reportPath k)
             then map_of (written run) k = None \<and>
                  ReportFailed (reportPath k) (CreateError (reportPath k)) \<in> set (runLog run)
             else map_of (written run) k = Some (reportPath k))"
  proof (intro ballI impI)
    fix k assume k: "k \<in> fst ` set (buckets run)" and mk: "\<not> mkdirFails env"
    from k have k': "k \<in> fst ` set rd" by (simp add: f)
    show "if createFails env (reportPath k)
             then map_of (written run) k = None \<and>
                  ReportFailed (reportPath k) (CreateError (reportPath k)) \<in> set (runLog run)
             else map_of (written run) k = Some (reportPath k)"
    proof (cases "createFails env (reportPath k)")
      case True
      from gen_logged_failed[OF mk k' True]
      have "ReportFailed (reportPath k) (CreateError (reportPath k)) \<in> set (logged st)"
        by (simp add: st_def)
      with f(6) have "ReportFailed (reportPath k) (CreateError (reportPath k)) \<in> set (runLog run)"
        by auto
      with True show ?thesis by (simp add: f(3) st_def gen_reportFiles)
    next
      case False
      with mk k' show ?thesis by (simp add: f(3) st_def gen_reportFiles)
    qed
  qed
  have a: "\<not> mkdirFails env \<and> (\<forall>p. \<not> createFails env p) \<longrightarrow>
            (written run = []) = (buckets run = [])"
    unfolding w by (cases "buckets run") auto
  from w h e p a show ?thesis by simp
qed

theorem fatal_iff_no_report_written_witness:
  "gradeFile sampleInputs = Inr [replicate 14 ''h'', aliceRow, bobRow] \<and>
   teacherFile sampleInputs = Inr [replicate 7 ''h'', leeRow] \<and>
   (halted (main insertionSort_func goodEnv sampleInputs Map.empty) = Some NoReports) =
     (written (main insertionSort_func goodEnv sampleInputs Map.empty) = []) \<and>
   written (main insertionSort_func goodEnv sampleInputs Map.empty) =
     [(leeKey, reportPath leeKey)] \<and>
   unmatched (main insertionSort_func goodEnv sampleInputs Map.empty) =
     [\<lparr>Row = bobRow @ replicate 7 []\<rparr>] \<and>
   halted (main insertionSort_func goodEnv sampleInputs Map.empty) = None"
proof -
  have h1: "gradeFile sampleInputs = Inr [replicate 14 ''h'', aliceRow, bobRow]"
    by (simp add: sampleInputs_def)
  have h2: "teacherFile sampleInputs = Inr [replicate 7 ''h'', leeRow]"
    by (simp add: sampleInputs_def)
  have c1: "(halted (main insertionSort_func goodEnv sampleInputs Map.empty) = Some NoReports) =
     (written (main insertionSort_func goodEnv sampleInputs Map.empty) = [])"
    using fatal_iff_no_report_written[OF h1 h2 refl] by blast
  have c2: "written (main insertionSort_func goodEnv sampleInputs Map.empty) =
     [(leeKey, reportPath leeKey)]"
    by code_simp
  have c3: "unmatched (main insertionSort_func goodEnv sampleInputs Map.empty) =
     [\<lparr>Row = bobRow @ replicate 7 []\<rparr>]"
    by code_simp
  have c4: "halted (main insertionSort_func goodEnv sampleInputs Map.empty) = None"
    by code_simp
  from h1 h2 c1 c2 c3 c4 show ?thesis
    by blast
qed

section \<open>Two runs on the same inputs\<close>

text \<open>
  C9, as the claim states it, fails: two buckets with one path are written to the same
  file, one after the other, in the order in which the map happens to be visited. On the
  inputs with two subject codes of one name, the report file holds Carol's row when the
  map is visited in one order and Alice's row when it is visited in the other.
\<close>

theorem same_inputs_different_files:
  "outputFiles (main insertionSort_func goodEnv twoCodesInputs Map.empty)
     (reportPath mathKey1) = Some [replicate 7 ''h'', carolM2] \<and>
   outputFiles (main insertionSort_func (goodEnv\<lparr>seedReports := [1]\<rparr>) twoCodesInputs Map.empty)
     (reportPath mathKey1) = Some [replicate 7 ''h'', aliceM1]"
  by code_simp

text \<open>
  C9, amended. Two runs on the same inputs, from the same file system and with the same
  failures of the environment, that differ only in the order in which the maps are
  visited, leave the same files (the same header, the same rows in the same order, the
  same cells), provided that the report keys of the run have different paths. Each
  report file then holds the header of the grade file and the sorted rows of its bucket.
\<close>

theorem reports_identical_when_paths_differ:
  assumes "gradeFile inp = Inr gradeRecords" and "teacherFile inp = Inr teacherRecords"
    and "readGradeCSV gradeRecords = (grades, csvHeaders, lg)"
    and "mkdirFails env' = mkdirFails env" and "createFails env' = createFails env"
    and "inj_on reportPath (fst ` set (buckets (main srt env inp fs)))"
  shows "outputFiles (main srt env' inp fs) = outputFiles (main srt env inp fs) \<and>
         buckets (main srt env' inp fs) = buckets (main srt env inp fs) \<and>
         unmatched (main srt env' inp fs) = unmatched (main srt env inp fs) \<and>
         map_of (written (main srt env' inp fs)) = map_of (written (main srt env inp fs)) \<and>
         halted (main srt env' inp fs) = halted (main srt env inp fs) \<and>
         (\<forall>(k, gs)\<in>set (buckets (main srt env inp fs)).
            \<not> mkdirFails env \<and> \<not> createFails env (reportPath k) \<longrightarrow>
            outputFiles (main srt env inp fs) (reportPath k)
              = Some (csvHeaders # map Row (srt lessGrades gs)))"
proof -
  obtain rd errs where
    m: "matchStudentsToTeachers grades (buildTeacherMap (readTeacherCSV teacherRecords))
        = (rd, errs)"
    by (metis surj_pair)
  define st where "st = generateCSVReports srt env csvHeaders rd
                (afterErrorExport env csvHeaders errs fs) (lg @ errorExportLog env errs)"
  define st' where "st' = generateCSVReports srt env' csvHeaders rd
                (afterErrorExport env' csvHeaders errs fs) (lg @ errorExportLog env' errs)"
  note f = main_fields[OF assms(1,2,3) m st_def]
  note f' = main_fields[OF assms(1,2,3) m st'_def]
  have d: "distinct (map fst rd)"
    using m match_distinct[of grades "buildTeacherMap (readTeacherCSV teacherRecords)"] by simp
  have i: "inj_on reportPath (fst ` set rd)"
    using assms(6) by (simp add: f(1))
  have ae: "afterErrorExport env' csvHeaders errs fs = afterErrorExport env csvHeaders errs fs"
    using assms(4,5) by (simp add: afterErrorExport_def)
  have files: "files st' = files st"
    by (rule ext) (simp add: st_def st'_def gen_files_any_order[OF d i] ae assms(4,5))
  have rf: "map_of (reportFiles st') = map_of (reportFiles st)"
    by (rule ext) (simp add: st_def st'_def gen_reportFiles assms(4,5))
  then have em: "(reportFiles st' = []) = (reportFiles st = [])"
    by (metis map_of_eq_empty_iff)
  have own: "\<forall>(k, gs)\<in>set rd.
            \<not> mkdirFails env \<and> \<not> createFails env (reportPath k) \<longrightarrow>
            files st (reportPath k) = Some (csvHeaders # map Row (srt lessGrades gs))"
  proof (intro ballI, clarify)
    fix k gs assume k: "(k, gs) \<in> set rd" and mk: "\<not> mkdirFails env"
      and cr: "\<not> createFails env (reportPath k)"
    have u: "\<forall>k'\<in>fst ` set rd. reportPath k' = reportPath k \<longrightarrow> k' = k"
      using i k by (auto simp: inj_on_def image_iff)
    from gen_files_own[OF d mk k u] cr
    show "files st (reportPath k) = Some (csvHeaders # map Row (srt lessGrades gs))"
      by (simp add: st_def)
  qed
  from files rf em own show ?thesis
    by (simp add: f f')
qed

theorem reports_identical_when_paths_differ_witness:
  "gradeFile twoSubjectsInputs = Inr [replicate 7 ''h'', take 7 aliceRow, daveRow] \<and>
   teacherFile twoSubjectsInputs = Inr [replicate 7 ''h'', leeRow, kimRow] \<and>
   readGradeCSV [replicate 7 ''h'', take 7 aliceRow, daveRow] =
     ([\<lparr>Row = take 7 aliceRow\<rparr>, \<lparr>Row = daveRow\<rparr>], replicate 7 ''h'', []) \<and>
   mkdirFails (goodEnv\<lparr>seedReports := [1]\<rparr>) = mkdirFails goodEnv \<and>
   createFails (goodEnv\<lparr>seedReports := [1]\<rparr>) = createFails goodEnv \<and>
   inj_on reportPath
     (fst ` set (buckets (main insertionSort_func goodEnv twoSubjectsInputs Map.empty))) \<and>
   outputFiles (main insertionSort_func (goodEnv\<lparr>seedReports := [1]\<rparr>) twoSubjectsInputs
                  Map.empty) =
     outputFiles (main insertionSort_func goodEnv twoSubjectsInputs Map.empty) \<and>
   map fst (written (main insertionSort_func goodEnv twoSubjectsInputs Map.empty)) =
     [leeKey, kimKey] \<and>
   map fst (written (main insertionSort_func (goodEnv\<lparr>seedReports := [1]\<rparr>) twoSubjectsInputs
                       Map.empty)) = [kimKey, leeKey]"
proof -
  have h1: "gradeFile twoSubjectsInputs = Inr [replicate 7 ''h'', take 7 aliceRow, daveRow]"
    by (simp add: twoSubjectsInputs_def)
  have h2: "teacherFile twoSubjectsInputs = Inr [replicate 7 ''h'', leeRow, kimRow]"
    by (simp add: twoSubjectsInputs_def)
  have h3: "readGradeCSV [replicate 7 ''h'', take 7 aliceRow, daveRow] =
     ([\<lparr>Row = take 7 aliceRow\<rparr>, \<lparr>Row = daveRow\<rparr>], replicate 7 ''h'', [])"
    by code_simp
  have h4: "mkdirFails (goodEnv\<lparr>seedReports := [1]\<rparr>) = mkdirFails goodEnv"
    by simp
  have h5: "createFails (goodEnv\<lparr>seedReports := [1]\<rparr>) = createFails goodEnv"
    by simp
  have b: "map fst (buckets (main insertionSort_func goodEnv twoSubjectsInputs Map.empty)) =
     [leeKey, kimKey]"
    by code_simp
  have n: "reportPath leeKey \<noteq> reportPath kimKey"
    by code_simp
  have "fst ` set (buckets (main insertionSort_func goodEnv twoSubjectsInputs Map.empty)) =
     set [leeKey, kimKey]"
    unfolding b[symmetric] by simp
  with n have h6: "inj_on reportPath
     (fst ` set (buckets (main insertionSort_func goodEnv twoSubjectsInputs Map.empty)))"
    by (auto simp: inj_on_def)
  have c: "outputFiles (main insertionSort_func (goodEnv\<lparr>seedReports := [1]\<rparr>) twoSubjectsInputs
                  Map.empty) =
     outputFiles (main insertionSort_func goodEnv twoSubjectsInputs Map.empty)"
    using reports_identical_when_paths_differ[OF h1 h2 h3 h4 h5 h6] by blast
  have w1: "map fst (written (main insertionSort_func goodEnv twoSubjectsInputs Map.empty)) =
     [leeKey, kimKey]"
    by code_simp
  have w2: "map fst (written (main insertionSort_func (goodEnv\<lparr>seedReports := [1]\<rparr>)
                       twoSubjectsInputs Map.empty)) = [kimKey, leeKey]"
    by code_simp
  from h1 h2 h3 h4 h5 h6 c w1 w2 show ?thesis
    by blast
qed

section \<open>Properties of the distribution plan\<close>









section \<open>Teacher rows with one key\<close>

lemma find_filter_hd:
  "filter P xs = y # ys \<Longrightarrow> find P xs = Some y"
  by (induction xs) (auto split: if_splits)

text \<open>
  C10. When several teacher rows have the key of the first row of a bucket, the teacher
  index holds the last of them, whose name goes into the report key and the file name,
  and the plan sends the file to the email of the first of them. In the run with the two
  teacher rows of Ms. Kim and Mr. Lee for one key, the report is named after Mr. Lee and
  is mailed to Ms. Kim's address.
\<close>

theorem duplicate_key_file_goes_to_first_row:
  "(filter (\<lambda>t. teacherKey t = gradeKey g) teachers = t # ts \<and> bucket rd key = g # gs \<longrightarrow>
      map_of (buildTeacherMap teachers) (gradeKey g) = Some (last (t # ts)) \<and>
      TeacherName_rk (reportKeyOf (last (t # ts)) g) = TeacherName (last (t # ts)) \<and>
      recipient rd teachers key = Some (Email t)) \<and>
   readTeacherCSV [replicate 7 ''h'', kimMathRow, leeRow] =
     [teacherOfRecord kimMathRow, teacherOfRecord leeRow] \<and>
   teacherKey (teacherOfRecord kimMathRow) = teacherKey (teacherOfRecord leeRow) \<and>
   written (main insertionSort_func goodEnv dupInputs Map.empty) =
     [(leeKey, reportPath leeKey)] \<and>
   reportPath leeKey = ''output/Mr.Lee_'' @ nianji @ ''7_Math.csv'' \<and>
   plan (main insertionSort_func goodEnv dupInputs Map.empty) =
     [(''kim@x.org'', [reportPath leeKey])] \<and>
   mails (main insertionSort_func goodEnv dupInputs Map.empty) =
     [\<lparr>recipientEmail = ''kim@x.org'', recipientName = ''Ms.Kim'',
       attachments = [reportPath leeKey]\<rparr>]"
proof -
  have a: "filter (\<lambda>t. teacherKey t = gradeKey g) teachers = t # ts \<and> bucket rd key = g # gs \<longrightarrow>
      map_of (buildTeacherMap teachers) (gradeKey g) = Some (last (t # ts)) \<and>
      TeacherName_rk (reportKeyOf (last (t # ts)) g) = TeacherName (last (t # ts)) \<and>
      recipient rd teachers key = Some (Email t)"
    by (auto simp: buildTeacherMap_lookup recipient_def reportKeyOf_def dest: find_filter_hd)
  have b: "readTeacherCSV [replicate 7 ''h'', kimMathRow, leeRow] =
     [teacherOfRecord kimMathRow, teacherOfRecord leeRow]"
    by code_simp
  have c: "teacherKey (teacherOfRecord kimMathRow) = teacherKey (teacherOfRecord leeRow)"
    by code_simp
  have d: "written (main insertionSort_func goodEnv dupInputs Map.empty) =
     [(leeKey, reportPath leeKey)]"
    by code_simp
  have e: "reportPath leeKey = ''output/Mr.Lee_'' @ nianji @ ''7_Math.csv''"
    by code_simp
  have f: "plan (main insertionSort_func goodEnv dupInputs Map.empty) =
     [(''kim@x.org'', [reportPath leeKey])]"
    by code_simp
  have g: "mails (main insertionSort_func goodEnv dupInputs Map.empty) =
     [\<lparr>recipientEmail = ''kim@x.org'', recipientName = ''Ms.Kim'',
       attachments = [reportPath leeKey]\<rparr>]"
    by code_simp
  from a b c d e f g show ?thesis
    by blast
qed

theorem duplicate_key_file_goes_to_first_row_witness:
  "filter (\<lambda>t. teacherKey t = gradeKey \<lparr>Row = take 7 aliceRow\<rparr>)
     [teacherOfRecord kimMathRow, teacherOfRecord leeRow] =
     teacherOfRecord kimMathRow # [teacherOfRecord leeRow] \<and>
   bucket [(leeKey, [\<lparr>Row = take 7 aliceRow\<rparr>])] leeKey = \<lparr>Row = take 7 aliceRow\<rparr> # [] \<and>
   map_of (buildTeacherMap [teacherOfRecord kimMathRow, teacherOfRecord leeRow])
     (gradeKey \<lparr>Row = take 7 aliceRow\<rparr>) =
     Some (last (teacherOfRecord kimMathRow # [teacherOfRecord leeRow])) \<and>
   recipient [(leeKey, [\<lparr>Row = take 7 aliceRow\<rparr>])]
     [teacherOfRecord kimMathRow, teacherOfRecord leeRow] leeKey =
     Some (Email (teacherOfRecord kimMathRow)) \<and>
   TeacherName (last (teacherOfRecord kimMathRow # [teacherOfRecord leeRow])) = ''Mr.Lee'' \<and>
   Email (teacherOfRecord kimMathRow) = ''kim@x.org''"
proof -
  have h1: "filter (\<lambda>t. teacherKey t = gradeKey \<lparr>Row = take 7 aliceRow\<rparr>)
     [teacherOfRecord kimMathRow, teacherOfRecord leeRow] =
     teacherOfRecord kimMathRow # [teacherOfRecord leeRow]"
    by code_simp
  have h2: "bucket [(leeKey, [\<lparr>Row = take 7 aliceRow\<rparr>])] leeKey =
     \<lparr>Row = take 7 aliceRow\<rparr> # []"
    by code_simp
  have c: "map_of (buildTeacherMap [teacherOfRecord kimMathRow, teacherOfRecord leeRow])
     (gradeKey \<lparr>Row = take 7 aliceRow\<rparr>) =
     Some (last (teacherOfRecord kimMathRow # [teacherOfRecord leeRow])) \<and>
   recipient [(leeKey, [\<lparr>Row = take 7 aliceRow\<rparr>])]
     [teacherOfRecord kimMathRow, teacherOfRecord leeRow] leeKey =
     Some (Email (teacherOfRecord kimMathRow))"
    using duplicate_key_file_goes_to_first_row[of "\<lparr>Row = take 7 aliceRow\<rparr>"
        "[teacherOfRecord kimMathRow, teacherOfRecord leeRow]" "teacherOfRecord kimMathRow"
        "[teacherOfRecord leeRow]" "[(leeKey, [\<lparr>Row = take 7 aliceRow\<rparr>])]" leeKey "[]"]
      h1 h2
    by blast
  have n: "TeacherName (last (teacherOfRecord kimMathRow # [teacherOfRecord leeRow])) = ''Mr.Lee''"
    by code_simp
  have m: "Email (teacherOfRecord kimMathRow) = ''kim@x.org''"
    by code_simp
  from h1 h2 c n m show ?thesis
    by blast
qed

end
